theory Spec2Isabelle
  imports Complex_Main "HOL-Library.Char_ord" "HOL-Library.List_Lexorder"
    "HOL-Library.Multiset"
begin

section \<open>A shallow embedding of the one-sector GE gravity model (OneSectorGE.py)\<close>

text \<open>
  Conventions of the embedding.
  \<^item> A float of numpy is a value of the type \<open>flt\<close>: a real number, or one of inf, -inf
    and nan. Arithmetic on real numbers is exact (rounding and overflow are not
    modelled, and zero has no sign); the other cases follow numpy: a division by zero
    gives inf, -inf or nan and raises nothing, and nan propagates. The RuntimeWarnings
    of numpy are not recorded.
  \<^item> The numbers that the caller supplies (the values of the cost variables, the
    estimated coefficients and fixed effects, sigma, the rescale factors, the
    tolerances) are finite: they are real numbers.
  \<^item> Every raise of the source and every exception of the Python run-time the code can
    run into is a value \<open>Inl e\<close> of the result type \<open>exn + 'a\<close>.
  \<^item> \<open>self\<close> is a record passed in and returned; the calls of \<open>warn\<close> and of
    \<open>print\<close> that the source makes append to two logs kept in it.
  \<^item> \<open>scipy.optimize.root\<close> is a parameter of every function that calls it.
  \<^item> A table of pandas is the list of its rows where pandas fixes their order, and the
    multiset of its rows where the order depends on the version of pandas.
  \<^item> A leading underscore of a Python name is dropped (\<open>_full_ge\<close> is \<open>full_ge\<close>).
\<close>

subsection \<open>Exceptions and sequencing\<close>

datatype exn =
    ValueError string
  | TypeError
  | AttributeError
  | KeyError
  | IndexError
  | ZeroDivisionError

definition then_do :: "exn + 'a \<Rightarrow> ('a \<Rightarrow> exn + 'b) \<Rightarrow> exn + 'b" where
  "then_do m f = (case m of Inl e \<Rightarrow> Inl e | Inr v \<Rightarrow> f v)"

text \<open>A list comprehension whose element expression may raise: the first failure wins.\<close>

fun collect :: "(exn + 'a) list \<Rightarrow> exn + 'a list" where
  "collect [] = Inr []"
| "collect (m # ms) =
     (case m of
        Inl e \<Rightarrow> Inl e
      | Inr v \<Rightarrow> (case collect ms of Inl e \<Rightarrow> Inl e | Inr vs \<Rightarrow> Inr (v # vs)))"

text \<open>Reading a field that may still hold \<open>None\<close> for an arithmetic operation.\<close>

definition the_float :: "'a option \<Rightarrow> exn + 'a" where
  "the_float v = (case v of None \<Rightarrow> Inl TypeError | Some r \<Rightarrow> Inr r)"

subsection \<open>Floats\<close>

datatype flt = Fin real | PInf | NInf | NaN

text \<open>The infinity with the sign of \<open>a\<close>; nan when \<open>a\<close> is zero.\<close>

definition inf_of :: "real \<Rightarrow> flt" where
  "inf_of a = (if 0 < a then PInf else if a < 0 then NInf else NaN)"

fun fneg :: "flt \<Rightarrow> flt" where
  "fneg (Fin a) = Fin (- a)"
| "fneg PInf = NInf"
| "fneg NInf = PInf"
| "fneg NaN = NaN"

fun fadd :: "flt \<Rightarrow> flt \<Rightarrow> flt" where
  "fadd (Fin a) (Fin b) = Fin (a + b)"
| "fadd (Fin a) PInf = PInf"
| "fadd (Fin a) NInf = NInf"
| "fadd (Fin a) NaN = NaN"
| "fadd PInf (Fin b) = PInf"
| "fadd PInf PInf = PInf"
| "fadd PInf NInf = NaN"
| "fadd PInf NaN = NaN"
| "fadd NInf (Fin b) = NInf"
| "fadd NInf PInf = NaN"
| "fadd NInf NInf = NInf"
| "fadd NInf NaN = NaN"
| "fadd NaN y = NaN"

definition fsub :: "flt \<Rightarrow> flt \<Rightarrow> flt" where
  "fsub x y = fadd x (fneg y)"

fun fmul :: "flt \<Rightarrow> flt \<Rightarrow> flt" where
  "fmul (Fin a) (Fin b) = Fin (a * b)"
| "fmul (Fin a) PInf = inf_of a"
| "fmul (Fin a) NInf = inf_of (- a)"
| "fmul (Fin a) NaN = NaN"
| "fmul PInf (Fin b) = inf_of b"
| "fmul PInf PInf = PInf"
| "fmul PInf NInf = NInf"
| "fmul PInf NaN = NaN"
| "fmul NInf (Fin b) = inf_of (- b)"
| "fmul NInf PInf = NInf"
| "fmul NInf NInf = PInf"
| "fmul NInf NaN = NaN"
| "fmul NaN y = NaN"

fun fdiv :: "flt \<Rightarrow> flt \<Rightarrow> flt" where
  "fdiv (Fin a) (Fin b) = (if b = 0 then inf_of a else Fin (a / b))"
| "fdiv (Fin a) PInf = Fin 0"
| "fdiv (Fin a) NInf = Fin 0"
| "fdiv (Fin a) NaN = NaN"
| "fdiv PInf (Fin b) = (if b < 0 then NInf else PInf)"
| "fdiv PInf PInf = NaN"
| "fdiv PInf NInf = NaN"
| "fdiv PInf NaN = NaN"
| "fdiv NInf (Fin b) = (if b < 0 then PInf else NInf)"
| "fdiv NInf PInf = NaN"
| "fdiv NInf NInf = NaN"
| "fdiv NInf NaN = NaN"
| "fdiv NaN y = NaN"

text \<open>
  The float power \<open>x ** y\<close> for a finite exponent: anything to the power zero is one;
  a positive base has its real power; zero to a negative power is inf; a negative base
  has a value only for an integral exponent.
\<close>

definition integral :: "real \<Rightarrow> bool" where
  "integral y \<longleftrightarrow> y = of_int \<lfloor>y\<rfloor>"

fun fpow :: "flt \<Rightarrow> real \<Rightarrow> flt" where
  "fpow (Fin a) y =
     (if y = 0 then Fin 1
      else if 0 < a then Fin (a powr y)
      else if a = 0 then (if 0 < y then Fin 0 else PInf)
      else if integral y then Fin (a powi \<lfloor>y\<rfloor>)
      else NaN)"
| "fpow PInf y = (if y = 0 then Fin 1 else if 0 < y then PInf else Fin 0)"
| "fpow NInf y =
     (if y = 0 then Fin 1
      else if 0 < y then (if integral y \<and> odd \<lfloor>y\<rfloor> then NInf else PInf)
      else Fin 0)"
| "fpow NaN y = (if y = 0 then Fin 1 else NaN)"

text \<open>Python's \<open>sum\<close>: the terms are added to 0 from the left.\<close>

definition fsum :: "flt list \<Rightarrow> flt" where
  "fsum xs = foldl fadd (Fin 0) xs"

text \<open>The sum of a column of a pandas table, which skips nan.\<close>

definition nansum :: "flt list \<Rightarrow> flt" where
  "nansum xs = fsum (filter (\<lambda>v. v \<noteq> NaN) xs)"

text \<open>The comparison \<open>!=\<close> of two floats: nan differs from everything.\<close>

definition differs :: "flt \<Rightarrow> flt \<Rightarrow> bool" where
  "differs a b \<longleftrightarrow> a = NaN \<or> b = NaN \<or> a \<noteq> b"

text \<open>\<open>100 * (new - old) / old\<close>.\<close>

definition percent_change_of :: "flt \<Rightarrow> flt \<Rightarrow> flt" where
  "percent_change_of new old = fdiv (fmul (Fin 100) (fsub new old)) old"

subsection \<open>Slices, columns and broadcasting\<close>

text \<open>Python's \<open>xs[a:b]\<close> and \<open>xs[a:]\<close>: a negative bound counts from the end, and
  bounds are clipped to the length.\<close>

definition slice_index :: "nat \<Rightarrow> int \<Rightarrow> nat" where
  "slice_index n i = (if i < 0 then nat (max 0 (int n + i)) else min n (nat i))"

definition slice :: "'a list \<Rightarrow> int \<Rightarrow> int \<Rightarrow> 'a list" where
  "slice xs a b =
     (let lo = slice_index (length xs) a; hi = slice_index (length xs) b
      in take (hi - lo) (drop lo xs))"

definition slice_from :: "'a list \<Rightarrow> int \<Rightarrow> 'a list" where
  "slice_from xs a = drop (slice_index (length xs) a) xs"

text \<open>\<open>xs[i]\<close> for the non-negative indices the source produces with \<open>range\<close>.\<close>

definition item :: "'a list \<Rightarrow> nat \<Rightarrow> exn + 'a" where
  "item xs i = (if i < length xs then Inr (xs ! i) else Inl IndexError)"

text \<open>A two-dimensional numpy array is the list of its rows, all of one length; the
  empty list is the array of shape (0, 0). \<open>m[:, j]\<close> and \<open>m[i, :]\<close>:\<close>

type_synonym matrix = "flt list list"

definition column :: "matrix \<Rightarrow> nat \<Rightarrow> exn + flt list" where
  "column m j =
     (if m = [] \<or> (\<exists>r \<in> set m. length r \<le> j) then Inl IndexError
      else Inr (map (\<lambda>r. r ! j) m))"

definition row :: "matrix \<Rightarrow> nat \<Rightarrow> exn + flt list" where
  "row m i = item m i"

text \<open>\<open>numpy.multiply\<close> on two one-dimensional operands, with broadcasting of a
  length-one operand.\<close>

definition np_multiply :: "flt list \<Rightarrow> flt list \<Rightarrow> exn + flt list" where
  "np_multiply a b =
     (if length a = length b then Inr (map2 fmul a b)
      else if length a = 1 then Inr (map (\<lambda>y. fmul (hd a) y) b)
      else if length b = 1 then Inr (map (\<lambda>x. fmul x (hd b)) a)
      else Inl (ValueError ''operands could not be broadcast together''))"

subsection \<open>The two residual functions\<close>

record mr_params =
  number_of_countries :: nat
  omr_rescale :: real
  imr_rescale :: real
  cost_exp_shr :: matrix
  cost_out_shr :: matrix

text \<open>\<open>[x * rescale for x in xs]\<close>.\<close>

definition scaled :: "flt list \<Rightarrow> real \<Rightarrow> flt list" where
  "scaled xs rescale = map (\<lambda>x. fmul x (Fin rescale)) xs"

text \<open>One element of the first comprehension of \<open>_multilateral_resistances\<close>:
  \<open>1 - multiply(x_imr[j], sum(multiply(cost_out_shr[:, j], x_omr)))\<close>.\<close>

definition imr_equation :: "matrix \<Rightarrow> flt list \<Rightarrow> flt list \<Rightarrow> nat \<Rightarrow> exn + flt" where
  "imr_equation out_shr x_imr x_omr j =
     then_do (item x_imr j) (\<lambda>imr_j.
     then_do (column out_shr j) (\<lambda>col.
     then_do (np_multiply col x_omr) (\<lambda>prods.
       Inr (fsub (Fin 1) (fmul imr_j (fsum prods))))))"

text \<open>One element of the second:
  \<open>1 - multiply(x_omr[i], sum(multiply(cost_exp_shr[i, :], x_imr)))\<close>.\<close>

definition omr_equation :: "matrix \<Rightarrow> flt list \<Rightarrow> flt list \<Rightarrow> nat \<Rightarrow> exn + flt" where
  "omr_equation exp_shr x_imr x_omr i =
     then_do (item x_omr i) (\<lambda>omr_i.
     then_do (row exp_shr i) (\<lambda>r.
     then_do (np_multiply r x_imr) (\<lambda>prods.
       Inr (fsub (Fin 1) (fmul omr_i (fsum prods))))))"

definition multilateral_resistances :: "flt list \<Rightarrow> mr_params \<Rightarrow> exn + flt list" where
  "multilateral_resistances x p =
     (let num_countries = number_of_countries p;
          x_imr = scaled (slice x 0 (int num_countries - 1)) (imr_rescale p);
          x_omr = scaled (slice_from x (int num_countries - 1)) (omr_rescale p)
      in then_do (collect (map (imr_equation (cost_out_shr p) x_imr x_omr)
                             [0 ..< num_countries - 1])) (\<lambda>out.
         then_do (collect (map (omr_equation (cost_exp_shr p) (x_imr @ [Fin 1]) x_omr)
                             [0 ..< num_countries])) (\<lambda>out2.
           Inr (out @ out2))))"

record ge_params = mr_params +
  sigma :: real
  output_shr :: "flt list"
  factory_gate_param :: "flt list"

text \<open>One element of the third comprehension of \<open>_full_ge\<close>:
  \<open>1 - ((out_share[i] * x_omr[i]) / (beta[i] * x_price[i] ** sigma_power))\<close>.\<close>

definition price_equation ::
  "real \<Rightarrow> flt list \<Rightarrow> flt list \<Rightarrow> flt list \<Rightarrow> flt list \<Rightarrow> nat \<Rightarrow> exn + flt" where
  "price_equation sigma_power out_share beta x_omr x_price i =
     then_do (item out_share i) (\<lambda>s_i.
     then_do (item x_omr i) (\<lambda>omr_i.
     then_do (item beta i) (\<lambda>beta_i.
     then_do (item x_price i) (\<lambda>p_i.
       Inr (fsub (Fin 1) (fdiv (fmul s_i omr_i) (fmul beta_i (fpow p_i sigma_power))))))))"

definition full_ge :: "flt list \<Rightarrow> ge_params \<Rightarrow> exn + flt list" where
  "full_ge x p =
     (let num_countries = number_of_countries p;
          sigma_power = 1 - sigma p;
          x_imr = scaled (slice x 0 (int num_countries - 1)) (imr_rescale p);
          x_omr = scaled (slice x (int num_countries - 1) (2 * int num_countries - 1))
                    (omr_rescale p);
          x_price = slice_from x (2 * int num_countries - 1)
      in then_do (collect (map (imr_equation (cost_out_shr p) x_imr x_omr)
                             [0 ..< num_countries - 1])) (\<lambda>out.
         then_do (collect (map (omr_equation (cost_exp_shr p) (x_imr @ [Fin 1]) x_omr)
                             [0 ..< num_countries])) (\<lambda>out2.
         then_do (collect (map (price_equation sigma_power (output_shr p)
                                  (factory_gate_param p) x_omr x_price)
                             [0 ..< num_countries])) (\<lambda>out3.
           Inr (out @ out2 @ out3)))))"

subsection \<open>Stateful code: the outcome of a method\<close>

text \<open>
  A method mutates its object in place, so the object as the method left it is part of
  the outcome also when the method raises: an outcome is the exception, if any, and the
  state at that moment.
\<close>

type_synonym 's outcome = "exn option \<times> 's"

definition next_do :: "'s outcome \<Rightarrow> ('s \<Rightarrow> 's outcome) \<Rightarrow> 's outcome" where
  "next_do r f = (case r of (None, s) \<Rightarrow> f s | (Some e, s) \<Rightarrow> (Some e, s))"

text \<open>Evaluating an expression that may raise, in state \<open>s\<close>.\<close>

definition eval_in :: "exn + 'a \<Rightarrow> 's \<Rightarrow> ('a \<Rightarrow> 's outcome) \<Rightarrow> 's outcome" where
  "eval_in m s f = (case m of Inl e \<Rightarrow> (Some e, s) | Inr v \<Rightarrow> f v)"

text \<open>A \<open>for\<close> loop whose body may raise: the loop stops there, with the state reached.\<close>

fun for_each :: "('a \<Rightarrow> 's \<Rightarrow> 's outcome) \<Rightarrow> 'a list \<Rightarrow> 's \<Rightarrow> 's outcome" where
  "for_each body [] s = (None, s)"
| "for_each body (a # as) s =
     (case body a s of
        (None, s') \<Rightarrow> for_each body as s'
      | (Some e, s') \<Rightarrow> (Some e, s'))"

subsection \<open>Economy and Country\<close>

record Economy =
  sigma :: real
  experiment_total_output :: "flt option"
  experiment_total_expenditure :: "flt option"
  baseline_total_output :: "flt option"
  baseline_total_expenditure :: "flt option"
  output_change :: "flt option"

text \<open>\<open>Economy.__init__\<close>.\<close>

definition new_Economy :: "real \<Rightarrow> Economy" where
  "new_Economy sg =
     \<lparr>Economy.sigma = sg, experiment_total_output = None,
      experiment_total_expenditure = None, baseline_total_output = None,
      baseline_total_expenditure = None, Economy.output_change = None\<rparr>"

text \<open>
  The fields of a country. \<open>None\<close> is Python's \<open>None\<close>. The attributes
  \<open>experiment_output_share\<close>, \<open>imports_change\<close> and \<open>exports_change\<close> are not set
  by \<open>Country.__init__\<close>: for them \<open>None\<close> is the missing attribute. The private
  attribute \<open>_reference_expenditure\<close> is \<open>reference_expenditure'\<close>, and \<open>identifier\<close>
  (a reserved word of Isabelle) is \<open>country_identifier\<close>. Output and expenditure are
  floats: the table they are read from has nan for a country that the data lack as an
  exporter or as an importer.
\<close>

record Country =
  country_identifier :: string
  year :: string
  baseline_output :: flt
  baseline_expenditure :: flt
  baseline_importer_fe :: "real option"
  baseline_exporter_fe :: "real option"
  reference_expenditure' :: flt
  baseline_output_share :: "flt option"
  baseline_expenditure_share :: "flt option"
  baseline_export_costs :: "flt option"
  baseline_import_costs :: "flt option"
  baseline_imr :: "flt option"
  baseline_omr :: "flt option"
  factory_gate_price_param :: "flt option"
  baseline_factory_price :: "flt option"
  conditional_imr :: "flt option"
  conditional_omr :: "flt option"
  experiment_imr :: "flt option"
  experiment_omr :: "flt option"
  experiment_factory_price :: "flt option"
  experiment_output :: "flt option"
  experiment_expenditure :: "flt option"
  experiment_output_share :: "flt option"
  baseline_terms_of_trade :: "flt option"
  experiment_terms_of_trade :: "flt option"
  output_change :: "flt option"
  expenditure_change :: "flt option"
  terms_of_trade_change :: "flt option"
  factory_price_change :: "flt option"
  baseline_imports :: "flt option"
  baseline_exports :: "flt option"
  baseline_foreign_exports :: "flt option"
  baseline_foreign_imports :: "flt option"
  experiment_imports :: "flt option"
  experiment_exports :: "flt option"
  experiment_foreign_imports :: "flt option"
  experiment_foreign_exports :: "flt option"
  imports_change :: "flt option"
  exports_change :: "flt option"
  foreign_imports_change :: "flt option"
  foreign_exports_change :: "flt option"

text \<open>\<open>Country.__init__\<close>. The no-estimate marker of a fixed effect (the string
  \<open>'no estimate'\<close>) is \<open>None\<close>.\<close>

definition new_Country ::
  "string \<Rightarrow> string \<Rightarrow> flt \<Rightarrow> flt \<Rightarrow> real option \<Rightarrow> real option \<Rightarrow> flt \<Rightarrow> Country" where
  "new_Country ident yr out expnd imp_fe exp_fe ref_expnd =
     \<lparr>country_identifier = ident, year = yr, baseline_output = out, baseline_expenditure = expnd,
      baseline_importer_fe = imp_fe, baseline_exporter_fe = exp_fe,
      reference_expenditure' = ref_expnd,
      baseline_output_share = None, baseline_expenditure_share = None,
      baseline_export_costs = None, baseline_import_costs = None,
      baseline_imr = None, baseline_omr = None, factory_gate_price_param = None,
      baseline_factory_price = Some (Fin 1),
      conditional_imr = None, conditional_omr = None,
      experiment_imr = None, experiment_omr = None, experiment_factory_price = None,
      experiment_output = None, experiment_expenditure = None,
      experiment_output_share = None,
      baseline_terms_of_trade = None, experiment_terms_of_trade = None,
      Country.output_change = None, expenditure_change = None,
      terms_of_trade_change = None, factory_price_change = None,
      baseline_imports = None, baseline_exports = None,
      baseline_foreign_exports = None, baseline_foreign_imports = None,
      experiment_imports = None, experiment_exports = None,
      experiment_foreign_imports = None, experiment_foreign_exports = None,
      imports_change = None, exports_change = None,
      foreign_imports_change = None, foreign_exports_change = None\<rparr>"

text \<open>A dictionary of countries keeps its insertion order: an association list with
  distinct keys.\<close>

type_synonym country_dict = "(string \<times> Country) list"

definition keys :: "('k \<times> 'v) list \<Rightarrow> 'k list" where
  "keys d = map fst d"

definition lookup :: "('k \<times> 'v) list \<Rightarrow> 'k \<Rightarrow> exn + 'v" where
  "lookup d k = (case map_of d k of None \<Rightarrow> Inl KeyError | Some v \<Rightarrow> Inr v)"

text \<open>\<open>d[k].field = v\<close> for a key that is present.\<close>

definition modify :: "'k \<Rightarrow> ('v \<Rightarrow> 'v) \<Rightarrow> ('k \<times> 'v) list \<Rightarrow> ('k \<times> 'v) list" where
  "modify k f d = map (\<lambda>(k', v). if k' = k then (k', f v) else (k', v)) d"

text \<open>\<open>d[k] = v\<close>.\<close>

definition store :: "'k \<Rightarrow> 'v \<Rightarrow> ('k \<times> 'v) list \<Rightarrow> ('k \<times> 'v) list" where
  "store k v d = (if k \<in> set (keys d) then modify k (\<lambda>_. v) d else d @ [(k, v)])"

text \<open>\<open>Economy.initialize_baseline_total_output_expend\<close>.\<close>

definition initialize_baseline_total_output_expend :: "country_dict \<Rightarrow> Economy \<Rightarrow> Economy" where
  "initialize_baseline_total_output_expend country_set e =
     e\<lparr>baseline_total_output := Some (fsum (map (\<lambda>(k, c). baseline_output c) country_set)),
       baseline_total_expenditure :=
         Some (fsum (map (\<lambda>(k, c). baseline_expenditure c) country_set))\<rparr>"

text \<open>\<open>Country.calculate_baseline_output_expenditure_shares\<close>.\<close>

definition calculate_baseline_output_expenditure_shares :: "Economy \<Rightarrow> Country \<Rightarrow> Country outcome" where
  "calculate_baseline_output_expenditure_shares economy c =
     eval_in (the_float (baseline_total_expenditure economy)) c (\<lambda>tot_e.
       (let c1 = c\<lparr>baseline_expenditure_share := Some (fdiv (baseline_expenditure c) tot_e)\<rparr>
        in eval_in (the_float (baseline_total_output economy)) c1 (\<lambda>tot_o.
             (None, c1\<lparr>baseline_output_share := Some (fdiv (baseline_output c1) tot_o)\<rparr>))))"

text \<open>\<open>Country.construct_terms_of_trade\<close>: the warnings it issues, and its outcome.\<close>

definition terms_of_trade_warning :: string where
  "terms_of_trade_warning = ''Not all necessary values for terms of trade have been calculated.''"

definition construct_terms_of_trade :: "Country \<Rightarrow> string list \<times> Country outcome" where
  "construct_terms_of_trade c =
     (let ws = concat (map (\<lambda>v. if v = None then [terms_of_trade_warning] else [])
                 [baseline_factory_price c, baseline_imr c,
                  experiment_factory_price c, experiment_imr c])
      in (ws,
          eval_in (the_float (baseline_factory_price c)) c (\<lambda>bp.
          eval_in (the_float (baseline_imr c)) c (\<lambda>bi.
            (let bt = fdiv bp bi;
                 c1 = c\<lparr>baseline_terms_of_trade := Some bt\<rparr>
             in eval_in (the_float (experiment_factory_price c1)) c1 (\<lambda>ep.
                eval_in (the_float (experiment_imr c1)) c1 (\<lambda>ei.
                  (let et = fdiv ep ei;
                       c2 = c1\<lparr>experiment_terms_of_trade := Some et\<rparr>
                   in (None, c2\<lparr>terms_of_trade_change := Some (percent_change_of et bt)\<rparr>)))))))))"

subsection \<open>Tables, the solver and the model object\<close>

text \<open>
  A row of the estimation or experiment data carries its cost variables by name; the
  columns for importer, exporter, year and trade value, which the source names through
  its meta data, are fields. The data hold no nan.
\<close>

record obs =
  obs_importer :: string
  obs_exporter :: string
  obs_year :: string
  obs_trade :: real
  obs_costs :: "(string \<times> real) list"

record cost_row =
  tc_importer :: string
  tc_exporter :: string
  tc_year :: string
  trade_cost :: real

record shock_row =
  sh_importer :: string
  sh_exporter :: string
  sh_year :: string
  baseline_trade_cost :: flt
  experiment_trade_cost :: flt

record bilateral_row =
  bt_exporter :: string
  bt_importer :: string
  baseline_modeled_trade :: flt
  experiment_trade :: flt
  percent_change :: flt

record agg_row =
  agg_country :: string
  agg_baseline_exports :: flt
  agg_experiment_exports :: flt
  agg_export_percent_change :: flt
  agg_baseline_foreign_exports :: flt
  agg_experiment_foreign_exports :: flt
  agg_foreign_export_percent_change :: flt
  agg_baseline_imports :: flt
  agg_experiment_imports :: flt
  agg_import_percent_change :: flt
  agg_baseline_foreign_imports :: flt
  agg_experiment_foreign_imports :: flt
  agg_foreign_import_percent_change :: flt

record oe_row =
  oe_country :: string
  oe_baseline_output :: flt
  oe_experiment_output :: flt
  oe_output_percent_change :: flt
  oe_baseline_expenditure :: flt
  oe_experiment_expenditure :: flt
  oe_expenditure_percent_change :: flt

record result_row =
  res_country :: string
  res_factory_price_change :: "flt option"
  res_output_change :: "flt option"
  res_expenditure_change :: "flt option"
  res_export_change :: flt
  res_import_change :: flt
  res_foreign_export_change :: "flt option"
  res_foreign_import_change :: "flt option"
  res_terms_of_trade_change :: "flt option"

record mr_row =
  mr_country :: string
  mr_baseline_imr :: "flt option"
  mr_conditional_expiriment_imr :: "flt option"
  mr_experiment_imr :: "flt option"
  mr_baseline_omr :: "flt option"
  mr_conditional_expiriment_omr :: "flt option"
  mr_experiment_omr :: "flt option"

text \<open>What \<open>scipy.optimize.root\<close> returns (\<open>x\<close>, \<open>success\<close>, \<open>message\<close>, \<open>fun\<close>).\<close>

record OptimizeResult =
  opt_x :: "flt list"
  opt_success :: bool
  opt_message :: string
  opt_fun :: "flt list"

text \<open>
  \<open>root(f, x0, method=..., tol=..., options={'xtol': tol, 'maxfev': max_iter})\<close>: the
  residual function (with \<open>args\<close> applied), the initial values, the method, the
  tolerance and the iteration cap. The solver is not part of the repository; whatever
  it raises comes back as \<open>Inl\<close>.
\<close>

type_synonym root_finder =
  "(flt list \<Rightarrow> exn + flt list) \<Rightarrow> flt list \<Rightarrow> string option \<Rightarrow> real option \<Rightarrow> int option
     \<Rightarrow> exn + OptimizeResult"

text \<open>
  The model object. A private attribute \<open>_name\<close> is the field \<open>name'\<close>. Two logs are
  added: what \<open>warn\<close> was called with and what was printed, in order.
\<close>

record OneSectorGE =
  estimation_results' :: "(string \<times> real) list option"
  year' :: string
  sigma :: real
  reference_importer' :: "string option"
  omr_rescale' :: "real option"
  imr_rescale' :: "real option"
  mr_max_iter' :: "int option"
  mr_tolerance' :: "real option"
  mr_method' :: "string option"
  ge_method' :: "string option"
  ge_tolerance' :: "real option"
  ge_max_iter' :: "int option"
  country_set :: country_dict
  economy' :: Economy
  baseline_trade_costs :: "cost_row list"
  experiment_trade_costs :: "cost_row list option"
  cost_shock :: "shock_row multiset option"
  experiment_data :: "obs list option"
  approach :: "string option"
  quiet :: bool
  bilateral_trade_results :: "bilateral_row list option"
  aggregate_trade_results :: "agg_row multiset option"
  solver_diagnostics :: "(string \<times> OptimizeResult) list"
  factory_gate_prices :: "(string \<times> flt) list option"
  outputs_expenditures :: "oe_row list option"
  country_results :: "result_row list option"
  country_mr_terms :: "mr_row list option"
  baseline_built' :: bool
  experiment_defined' :: bool
  cost_variables :: "string list"
  cost_coeffs :: "(string \<times> real) list"
  baseline_data :: "obs list"
  warnings :: "string list"
  printed :: "string list"

definition warn :: "string \<Rightarrow> OneSectorGE \<Rightarrow> OneSectorGE" where
  "warn msg s = s\<lparr>warnings := warnings s @ [msg]\<rparr>"

text \<open>\<open>if not self.quiet: print(msg)\<close>.\<close>

definition say :: "string \<Rightarrow> OneSectorGE \<Rightarrow> OneSectorGE" where
  "say msg s = (if quiet s then s else s\<lparr>printed := printed s @ [msg]\<rparr>)"

subsection \<open>Trade costs and the cost-weighted share matrices\<close>

definition trade_costs_not_square :: string where
  "trade_costs_not_square =
     ''Calculated trade costs are not square. Some bilateral costs are absent.''"

text \<open>The sum of the cost-weighted variables of one row.\<close>

definition weighted_sum :: "string list \<Rightarrow> (string \<times> real) list \<Rightarrow> obs \<Rightarrow> exn + real" where
  "weighted_sum vars coeffs r =
     then_do (collect (map (\<lambda>v. then_do (lookup (obs_costs r) v) (\<lambda>c.
                                  then_do (lookup coeffs v) (\<lambda>b. Inr (b * c)))) vars))
       (\<lambda>ws. Inr (sum_list ws))"

text \<open>
  \<open>_create_trade_costs\<close>. The data hold no nan, so the first warning of the source is
  never issued here.
\<close>

definition create_trade_costs ::
  "obs list \<Rightarrow> OneSectorGE \<Rightarrow> (exn + cost_row list) \<times> OneSectorGE" where
  "create_trade_costs data_set s =
     (case collect (map (\<lambda>r. then_do (weighted_sum (cost_variables s) (cost_coeffs s) r)
                          (\<lambda>w. Inr \<lparr>tc_importer = obs_importer r, tc_exporter = obs_exporter r,
                                    tc_year = obs_year r, trade_cost = exp w\<rparr>)) data_set) of
        Inl e \<Rightarrow> (Inl e, s)
      | Inr weighted_costs \<Rightarrow>
          (Inr weighted_costs,
           if length weighted_costs \<noteq> (length (keys (country_set s)))\<^sup>2
           then warn trade_costs_not_square s else s))"

record share_row =
  sr_importer :: string
  sr_exporter :: string
  cost_output_share :: flt
  cost_expend_share :: flt

text \<open>The loop of \<open>_create_cost_output_expend_params\<close> over the rows of the table.\<close>

definition share_of_row :: "country_dict \<Rightarrow> cost_row \<Rightarrow> exn + share_row" where
  "share_of_row cs r =
     then_do (lookup cs (tc_exporter r)) (\<lambda>ex.
     then_do (the_float (baseline_output_share ex)) (\<lambda>os.
     then_do (lookup cs (tc_importer r)) (\<lambda>im.
     then_do (the_float (baseline_expenditure_share im)) (\<lambda>es.
       Inr \<lparr>sr_importer = tc_importer r, sr_exporter = tc_exporter r,
            cost_output_share = fmul (Fin (trade_cost r)) os,
            cost_expend_share = fmul (Fin (trade_cost r)) es\<rparr>))))"

text \<open>
  \<open>DataFrame.pivot\<close> with the exporters as index and the importers as columns, both
  sorted: a pair that occurs twice is an error, a pair that does not occur is nan.
\<close>

definition pivot :: "share_row list \<Rightarrow> (share_row \<Rightarrow> flt) \<Rightarrow> exn + matrix" where
  "pivot rows val =
     (if \<not> distinct (map (\<lambda>r. (sr_exporter r, sr_importer r)) rows)
      then Inl (ValueError ''Index contains duplicate entries, cannot reshape'')
      else Inr (map (\<lambda>e. map (\<lambda>i.
                  (case find (\<lambda>r. sr_exporter r = e \<and> sr_importer r = i) rows of
                     None \<Rightarrow> NaN
                   | Some r \<Rightarrow> val r))
                  (sort (remdups (map sr_importer rows))))
                (sort (remdups (map sr_exporter rows)))))"

text \<open>\<open>np.isnan(m).any()\<close>.\<close>

definition has_nan :: "matrix \<Rightarrow> bool" where
  "has_nan m = (\<exists>r \<in> set m. NaN \<in> set r)"

definition cost_exp_share_nan :: string where
  "cost_exp_share_nan = ''cost_exp_share values contain missing (nan) values.''"

definition cost_out_share_nan :: string where
  "cost_out_share_nan = ''cost_out_share values contain missing (nan) values.''"

text \<open>\<open>_create_cost_output_expend_params\<close>: the pair (cost_exp_shr, cost_out_shr).\<close>

definition create_cost_output_expend_params ::
  "cost_row list \<Rightarrow> OneSectorGE \<Rightarrow> (exn + matrix \<times> matrix) \<times> OneSectorGE" where
  "create_cost_output_expend_params trade_costs s =
     (case collect (map (share_of_row (country_set s)) trade_costs) of
        Inl e \<Rightarrow> (Inl e, s)
      | Inr cost_params \<Rightarrow>
          (case pivot cost_params cost_expend_share of
             Inl e \<Rightarrow> (Inl e, s)
           | Inr exp_shr \<Rightarrow>
               (case pivot cost_params cost_output_share of
                  Inl e \<Rightarrow> (Inl e, s)
                | Inr out_shr \<Rightarrow>
                    (let s1 = (if has_nan exp_shr then warn cost_exp_share_nan s else s);
                         s2 = (if has_nan out_shr then warn cost_out_share_nan s1 else s1)
                     in (Inr (exp_shr, out_shr), s2)))))"

subsection \<open>Solving for the multilateral resistances\<close>

definition initial_values :: "nat \<Rightarrow> flt list" where
  "initial_values num_countries = replicate (nat (2 * int num_countries - 1)) (Fin 1)"

definition solution_converged :: string where
  "solution_converged = ''The solution converged.''"

text \<open>
  Step 3 of \<open>_calculate_multilateral_resistance\<close>: the vectors \<open>imrs\<close> and \<open>omrs\<close>
  read from the solution.
\<close>

definition unpack_imrs :: "flt list \<Rightarrow> nat \<Rightarrow> real \<Rightarrow> flt list" where
  "unpack_imrs sol n imr_r = scaled (slice sol 0 (int n - 1)) imr_r @ [Fin 1]"

definition unpack_omrs :: "flt list \<Rightarrow> nat \<Rightarrow> real \<Rightarrow> flt list" where
  "unpack_omrs sol n omr_r = scaled (slice_from sol (int n - 1)) omr_r"

definition set_baseline_mrs :: "flt \<Rightarrow> flt \<Rightarrow> Country \<Rightarrow> Country" where
  "set_baseline_mrs i om c = c\<lparr>baseline_imr := Some i, baseline_omr := Some om\<rparr>"

definition set_conditional_mrs :: "flt \<Rightarrow> flt \<Rightarrow> Country \<Rightarrow> Country" where
  "set_conditional_mrs i om c = c\<lparr>conditional_imr := Some i, conditional_omr := Some om\<rparr>"

text \<open>The loops \<open>for country in country_list\<close> over the table \<open>mrs\<close>, whose index is
  the sorted country list.\<close>

definition store_mrs ::
  "(flt \<Rightarrow> flt \<Rightarrow> Country \<Rightarrow> Country) \<Rightarrow> string list \<Rightarrow> flt list \<Rightarrow> flt list
     \<Rightarrow> country_dict \<Rightarrow> country_dict" where
  "store_mrs setter country_list imrs omrs d =
     fold (\<lambda>(country, i, om). modify country (setter i om))
       (zip country_list (zip imrs omrs)) d"

text \<open>
  A column given to \<open>pd.DataFrame(data=..., index=...)\<close> as an array: an array of one
  element is repeated along the index; after that its length has to be the length of
  the index.
\<close>

definition maybe_repeat :: "'a list \<Rightarrow> nat \<Rightarrow> 'a list" where
  "maybe_repeat arr n = (if length arr = 1 \<and> n \<noteq> 1 then replicate n (hd arr) else arr)"

definition length_mismatch :: string where
  "length_mismatch = ''Length of values does not match length of index''"

definition pack_up_mrs ::
  "string list \<Rightarrow> flt list \<Rightarrow> real \<Rightarrow> real \<Rightarrow> string \<Rightarrow> OneSectorGE \<Rightarrow> OneSectorGE outcome" where
  "pack_up_mrs country_list sol imr_r omr_r version s =
     (let n = length country_list;
          imrs = maybe_repeat (unpack_imrs sol n imr_r) n;
          omrs = maybe_repeat (unpack_omrs sol n omr_r) n
      in if length imrs \<noteq> n \<or> length omrs \<noteq> n
         then (Some (ValueError length_mismatch), s)
         else
           (let s1 = (if version = ''baseline''
                      then s\<lparr>country_set :=
                              store_mrs set_baseline_mrs country_list imrs omrs (country_set s)\<rparr>
                      else s);
                s2 = (if version = ''conditional''
                      then s1\<lparr>country_set :=
                              store_mrs set_conditional_mrs country_list imrs omrs (country_set s1)\<rparr>
                      else s1)
            in (None, s2)))"

text \<open>The message test, and the entry of the result into \<open>solver_diagnostics\<close>.\<close>

definition note_solution :: "string \<Rightarrow> OptimizeResult \<Rightarrow> OneSectorGE \<Rightarrow> OneSectorGE" where
  "note_solution key solved s =
     (let s1 = (if opt_message solved = solution_converged
                then say (opt_message solved) s
                else warn (opt_message solved) s)
      in s1\<lparr>solver_diagnostics := store key solved (solver_diagnostics s1)\<rparr>)"

definition solve_mrs ::
  "root_finder \<Rightarrow> mr_params \<Rightarrow> string list \<Rightarrow> string \<Rightarrow> OneSectorGE \<Rightarrow> OneSectorGE outcome" where
  "solve_mrs solver mr_params country_list version s =
     (let s1 = say (''Solving for '' @ version @ '' MRs...'') s
      in eval_in (solver (\<lambda>x. multilateral_resistances x mr_params)
                    (initial_values (number_of_countries mr_params))
                    (mr_method' s1) (mr_tolerance' s1) (mr_max_iter' s1)) s1
           (\<lambda>solved_mrs.
              pack_up_mrs (sort country_list) (opt_x solved_mrs)
                (imr_rescale mr_params) (omr_rescale mr_params) version
                (note_solution (version @ ''_MRs'') solved_mrs s1)))"

text \<open>
  \<open>_calculate_multilateral_resistance\<close> as \<open>build_baseline\<close>, \<open>simulate\<close> and
  \<open>check_omr_rescale\<close> call it (\<open>test=False\<close>). All three set the two rescale factors
  before the call; were one still \<open>None\<close>, the multiplication by it in the residual
  function would be a TypeError, which is placed before the call of the solver here.
\<close>

definition calculate_multilateral_resistance ::
  "root_finder \<Rightarrow> cost_row list \<Rightarrow> string \<Rightarrow> OneSectorGE \<Rightarrow> OneSectorGE outcome" where
  "calculate_multilateral_resistance solver trade_costs version s =
     (case create_cost_output_expend_params trade_costs s of
        (Inl e, s1) \<Rightarrow> (Some e, s1)
      | (Inr (exp_shr, out_shr), s1) \<Rightarrow>
          eval_in (the_float (omr_rescale' s1)) s1 (\<lambda>omr_r.
          eval_in (the_float (imr_rescale' s1)) s1 (\<lambda>imr_r.
            solve_mrs solver
              \<lparr>number_of_countries = length (keys (country_set s1)),
               omr_rescale = omr_r, imr_rescale = imr_r,
               cost_exp_shr = exp_shr, cost_out_shr = out_shr\<rparr>
              (keys (country_set s1)) version s1)))"

subsection \<open>The closed-form baseline of the GEPPML approach\<close>

definition GEPPML_OMR :: "flt \<Rightarrow> flt \<Rightarrow> real \<Rightarrow> flt" where
  "GEPPML_OMR Y_i E_R exp_fe_i = fdiv (fmul Y_i E_R) (Fin (exp exp_fe_i))"

definition GEPPML_IMR :: "flt \<Rightarrow> flt \<Rightarrow> real \<Rightarrow> flt" where
  "GEPPML_IMR E_j E_R imp_fe_j = fdiv E_j (fmul (Fin (exp imp_fe_j)) E_R)"

definition importer_fe_for_reference :: string where
  "importer_fe_for_reference =
     ''There exists an importer fixed effect estimate for the reference country. '' @
     ''Check that the fixed effect specification correctly omits the reference country''"

definition set_country :: "string \<Rightarrow> (Country \<Rightarrow> Country) \<Rightarrow> OneSectorGE \<Rightarrow> OneSectorGE" where
  "set_country k f s = s\<lparr>country_set := modify k f (country_set s)\<rparr>"

text \<open>The body of the loop over the countries, for the reference importer.\<close>

definition GEPPML_reference :: "flt \<Rightarrow> string \<Rightarrow> OneSectorGE \<Rightarrow> OneSectorGE outcome" where
  "GEPPML_reference reference_expnd country s =
     eval_in (lookup (country_set s) country) s (\<lambda>country_obj.
       (let s1 = (if baseline_importer_fe country_obj \<noteq> None
                  then warn importer_fe_for_reference s else s)
        in (case baseline_exporter_fe country_obj of
              None \<Rightarrow> (Some (ValueError (''No exporter fixed effect estimate for '' @ country)), s1)
            | Some exp_fe \<Rightarrow>
                (let imr = Fin 1;
                     omr = GEPPML_OMR (baseline_output country_obj) reference_expnd exp_fe
                 in (None,
                     set_country country
                       (\<lambda>c. c\<lparr>baseline_imr := Some (fdiv (Fin 1) imr),
                               baseline_omr := Some (fdiv (Fin 1) omr)\<rparr>) s1)))))"

text \<open>The body for every other country. The inward term is computed from the
  exporter fixed effect, as in the source.\<close>

definition GEPPML_other :: "flt \<Rightarrow> string \<Rightarrow> OneSectorGE \<Rightarrow> OneSectorGE outcome" where
  "GEPPML_other reference_expnd country s =
     eval_in (lookup (country_set s) country) s (\<lambda>country_obj.
       (if baseline_importer_fe country_obj = None
        then (Some (ValueError (''No importer fixed effect estimate for '' @ country)), s)
        else (case baseline_exporter_fe country_obj of
                None \<Rightarrow> (Some (ValueError (''No exporter fixed effect estimate for '' @ country)), s)
              | Some exp_fe \<Rightarrow>
                  (let omr = GEPPML_OMR (baseline_output country_obj) reference_expnd exp_fe;
                       imr = GEPPML_IMR (baseline_expenditure country_obj) reference_expnd exp_fe
                   in (None,
                       set_country country
                         (\<lambda>c. c\<lparr>baseline_imr := Some (fdiv (Fin 1) imr),
                                 baseline_omr := Some (fdiv (Fin 1) omr)\<rparr>) s)))))"

text \<open>
  \<open>_calculate_GEPPML_multilateral_resistance\<close>. For the version \<open>'conditional'\<close> the
  source only builds a local table, from a copy of \<open>experiment_data\<close> merged with
  \<open>experiment_trade_costs\<close>, and stores nothing.
\<close>

definition calculate_GEPPML_multilateral_resistance ::
  "string \<Rightarrow> OneSectorGE \<Rightarrow> OneSectorGE outcome" where
  "calculate_GEPPML_multilateral_resistance version s =
     (let country_list = keys (country_set s)
      in if version = ''baseline''
         then (case reference_importer' s of
                 None \<Rightarrow> (Some KeyError, s)
               | Some ref \<Rightarrow>
                   eval_in (lookup (country_set s) ref) s (\<lambda>ref_obj.
                     for_each (\<lambda>country.
                         if country = ref
                         then GEPPML_reference (baseline_expenditure ref_obj) country
                         else GEPPML_other (baseline_expenditure ref_obj) country)
                       country_list s))
         else if version = ''conditional''
         then (case experiment_data s of
                 None \<Rightarrow> (Some AttributeError, s)
               | Some d \<Rightarrow>
                   (case experiment_trade_costs s of
                      None \<Rightarrow> (Some TypeError, s)
                    | Some costs \<Rightarrow> (None, s)))
         else (None, s))"

subsection \<open>Building the baseline and defining the experiment\<close>

text \<open>\<open>_calculate_baseline_factory_gate_params\<close>.\<close>

definition calculate_baseline_factory_gate_params :: "OneSectorGE \<Rightarrow> OneSectorGE outcome" where
  "calculate_baseline_factory_gate_params s =
     for_each (\<lambda>country st.
         eval_in (lookup (country_set st) country) st (\<lambda>c.
         eval_in (the_float (baseline_output_share c)) st (\<lambda>os.
         eval_in (the_float (baseline_omr c)) st (\<lambda>om.
           (None, set_country country (\<lambda>c. c\<lparr>factory_gate_price_param := Some (fmul os om)\<rparr>) st)))))
       (keys (country_set s)) s"

definition GEPPML_needs_estimates :: string where
  "GEPPML_needs_estimates =
     ''GEPPML approach requires that the gme.EstimationModel be estimated and use '' @
     ''importer and exporter fixed effects.''"

definition build_baseline ::
  "root_finder \<Rightarrow> real \<Rightarrow> real \<Rightarrow> string \<Rightarrow> int \<Rightarrow> real \<Rightarrow> OneSectorGE \<Rightarrow> OneSectorGE outcome" where
  "build_baseline solver omr_r imr_r mr_method mr_max_iter mr_tolerance s =
     (let s1 = s\<lparr>omr_rescale' := Some omr_r, imr_rescale' := Some imr_r,
                 mr_max_iter' := Some mr_max_iter, mr_tolerance' := Some mr_tolerance,
                 mr_method' := Some mr_method\<rparr>
      in next_do
           (if approach s1 = Some ''GEPPML''
            then (if estimation_results' s1 = None
                  then (Some (ValueError GEPPML_needs_estimates), s1)
                  else calculate_GEPPML_multilateral_resistance ''baseline'' s1)
            else calculate_multilateral_resistance solver (baseline_trade_costs s1)
                   ''baseline'' s1)
           (\<lambda>s2. next_do (calculate_baseline_factory_gate_params s2)
           (\<lambda>s3. (None, s3\<lparr>baseline_built' := True\<rparr>))))"

definition baseline_first :: string where
  "baseline_first = ''Baseline must be built first (i.e. ge_model.build_baseline() method''"

definition tc_key :: "cost_row \<Rightarrow> string list" where
  "tc_key r = [tc_importer r, tc_exporter r, tc_year r]"

definition shock :: "string list \<Rightarrow> flt \<Rightarrow> flt \<Rightarrow> shock_row" where
  "shock k b e =
     \<lparr>sh_importer = k ! 0, sh_exporter = k ! 1, sh_year = k ! 2,
      baseline_trade_cost = b, experiment_trade_cost = e\<rparr>"

text \<open>
  \<open>left.merge(right, how='outer', on=[importer, exporter, year])\<close> of two trade-cost
  tables: for every key of one of them, every pairing of the rows of that key, with nan
  for the side that has no row. The order of the rows of the result depends on the
  version of pandas; the result is the multiset of its rows.
\<close>

definition merge_outer :: "cost_row list \<Rightarrow> cost_row list \<Rightarrow> shock_row multiset" where
  "merge_outer left right =
     mset (concat (map (\<lambda>k.
         (let ls = filter (\<lambda>r. tc_key r = k) left;
              rs = filter (\<lambda>r. tc_key r = k) right
          in if rs = [] then map (\<lambda>l. shock k (Fin (trade_cost l)) NaN) ls
             else if ls = [] then map (\<lambda>r. shock k NaN (Fin (trade_cost r))) rs
             else concat (map (\<lambda>l. map (\<lambda>r. shock k (Fin (trade_cost l)) (Fin (trade_cost r))) rs)
                            ls)))
       (remdups (map tc_key (left @ right)))))"

text \<open>\<open>define_experiment\<close>. Its argument defaults to \<open>None\<close>, which cannot be
  subscripted.\<close>

definition define_experiment :: "obs list option \<Rightarrow> OneSectorGE \<Rightarrow> OneSectorGE outcome" where
  "define_experiment data s =
     (if \<not> baseline_built' s then (Some (ValueError baseline_first), s)
      else
        (let s1 = s\<lparr>experiment_data := data\<rparr>
         in (case data of
               None \<Rightarrow> (Some TypeError, s1)
             | Some d \<Rightarrow>
                 (case create_trade_costs d s1 of
                    (Inl e, s2) \<Rightarrow> (Some e, s2)
                  | (Inr costs, s2) \<Rightarrow>
                      (let s3 = s2\<lparr>experiment_trade_costs := Some costs\<rparr>;
                           cost_change = merge_outer (baseline_trade_costs s3) costs;
                           s4 = s3\<lparr>cost_shock :=
                                    Some (filter_mset (\<lambda>r. differs (baseline_trade_cost r)
                                                              (experiment_trade_cost r))
                                            cost_change)\<rparr>
                       in (None, s4\<lparr>experiment_defined' := True\<rparr>))))))"

subsection \<open>The full GE solve\<close>

text \<open>\<open>[mr / rescale for mr in init]\<close>.\<close>

definition rescaled :: "flt option list \<Rightarrow> real option \<Rightarrow> exn + flt list" where
  "rescaled mrs rescale =
     collect (map (\<lambda>mr. then_do (the_float mr) (\<lambda>v.
                          then_do (the_float rescale) (\<lambda>r. Inr (fdiv v (Fin r))))) mrs)"

text \<open>The loop that reads one attribute of every country of the sorted list.\<close>

definition gather :: "country_dict \<Rightarrow> string list \<Rightarrow> (Country \<Rightarrow> 'a) \<Rightarrow> exn + 'a list" where
  "gather cs country_list f =
     collect (map (\<lambda>country. then_do (lookup cs country) (\<lambda>c. Inr (f c))) country_list)"

text \<open>The body of the loop \<open>for i, country in enumerate(country_list)\<close>.\<close>

definition store_experiment ::
  "flt list \<Rightarrow> flt list \<Rightarrow> flt list \<Rightarrow> nat \<times> string \<Rightarrow> OneSectorGE \<Rightarrow> OneSectorGE outcome" where
  "store_experiment imrs omrs prices ic s =
     (case ic of (i, country) \<Rightarrow>
        eval_in (item imrs i) s (\<lambda>v.
          (let s1 = set_country country (\<lambda>c. c\<lparr>experiment_imr := Some v\<rparr>) s
           in eval_in (item omrs i) s1 (\<lambda>w.
                (let s2 = set_country country (\<lambda>c. c\<lparr>experiment_omr := Some w\<rparr>) s1
                 in eval_in (item prices i) s2 (\<lambda>pr.
                      (None, set_country country
                               (\<lambda>c. c\<lparr>experiment_factory_price := Some pr,
                                       factory_price_change :=
                                         Some (fmul (Fin 100) (fsub pr (Fin 1)))\<rparr>) s2)))))))"

definition unequal_lengths :: string where
  "unequal_lengths = ''All arrays must be of the same length''"

definition unpack_full_ge ::
  "string list \<Rightarrow> flt list \<Rightarrow> real \<Rightarrow> real \<Rightarrow> OneSectorGE \<Rightarrow> OneSectorGE outcome" where
  "unpack_full_ge country_list sol imr_r omr_r s =
     (let n = length country_list;
          imrs = scaled (slice sol 0 (int n - 1)) imr_r @ [Fin 1];
          omrs = scaled (slice sol (int n - 1) (2 * int n - 1)) omr_r;
          prices = slice_from sol (2 * int n - 1)
      in if length prices \<noteq> n
         then (Some (ValueError unequal_lengths), s)
         else for_each (store_experiment imrs omrs prices) (enumerate 0 country_list)
                (s\<lparr>factory_gate_prices := Some (zip country_list prices)\<rparr>))"

definition solve_full_ge ::
  "root_finder \<Rightarrow> ge_params \<Rightarrow> flt list \<Rightarrow> string list \<Rightarrow> OneSectorGE \<Rightarrow> OneSectorGE outcome" where
  "solve_full_ge solver ge_params initial country_list s =
     (let s1 = say ''Solving full GE model...'' s
      in eval_in (solver (\<lambda>x. full_ge x ge_params) initial
                    (ge_method' s1) (ge_tolerance' s1) (ge_max_iter' s1)) s1
           (\<lambda>full_ge_results.
              unpack_full_ge country_list (opt_x full_ge_results)
                (imr_rescale ge_params) (omr_rescale ge_params)
                (note_solution ''full_GE'' full_ge_results s1)))"

text \<open>
  \<open>_calculate_full_ge\<close>. A \<open>None\<close> among the output shares or the factory-gate
  parameters would be a TypeError inside the residual function; it is placed before the
  call of the solver.
\<close>

definition calculate_full_ge :: "root_finder \<Rightarrow> OneSectorGE \<Rightarrow> OneSectorGE outcome" where
  "calculate_full_ge solver s =
     (let country_list = sort (keys (country_set s))
      in (case experiment_trade_costs s of
            None \<Rightarrow> (Some AttributeError, s)
          | Some costs \<Rightarrow>
              (case create_cost_output_expend_params costs s of
                 (Inl e, s1) \<Rightarrow> (Some e, s1)
               | (Inr (exp_shr, out_shr), s1) \<Rightarrow>
                   eval_in (gather (country_set s1) country_list conditional_imr) s1 (\<lambda>imr0.
                   eval_in (gather (country_set s1) country_list conditional_omr) s1 (\<lambda>omr0.
                   eval_in (gather (country_set s1) country_list baseline_output_share) s1 (\<lambda>shr0.
                   eval_in (gather (country_set s1) country_list factory_gate_price_param) s1 (\<lambda>fgp0.
                   eval_in (rescaled imr0 (imr_rescale' s1)) s1 (\<lambda>init_imr.
                   eval_in (rescaled omr0 (omr_rescale' s1)) s1 (\<lambda>init_omr.
                   eval_in (the_float (omr_rescale' s1)) s1 (\<lambda>omr_r.
                   eval_in (the_float (imr_rescale' s1)) s1 (\<lambda>imr_r.
                   eval_in (collect (map the_float shr0)) s1 (\<lambda>output_share.
                   eval_in (collect (map the_float fgp0)) s1 (\<lambda>factory_gate_params.
                     solve_full_ge solver
                       \<lparr>number_of_countries = length country_list,
                        omr_rescale = omr_r, imr_rescale = imr_r,
                        cost_exp_shr = exp_shr, cost_out_shr = out_shr,
                        ge_params.sigma = OneSectorGE.sigma s1,
                        output_shr = output_share,
                        factory_gate_param = factory_gate_params\<rparr>
                       (slice init_imr 0 (int (length country_list) - 1) @ init_omr @
                          replicate (length country_list) (Fin 1))
                       country_list s1)))))))))))))"

subsection \<open>Results: output and expenditure\<close>

text \<open>The body of the first loop of \<open>_construct_experiment_output_expend\<close>; the
  state carries the local variable \<open>total_output\<close>.\<close>

definition experiment_levels ::
  "string \<Rightarrow> OneSectorGE \<times> flt \<Rightarrow> (OneSectorGE \<times> flt) outcome" where
  "experiment_levels country st =
     (case st of (s, total_output) \<Rightarrow>
        eval_in (lookup (country_set s) country) st (\<lambda>c.
        eval_in (the_float (experiment_factory_price c)) st (\<lambda>pr.
          (None,
           (set_country country
              (\<lambda>c. c\<lparr>experiment_output := Some (fmul pr (baseline_output c)),
                      experiment_expenditure := Some (fmul pr (baseline_expenditure c))\<rparr>) s,
            fadd total_output (fmul pr (baseline_output c)))))))"

text \<open>The body of the second loop; the state carries the local \<open>results_table\<close>.\<close>

definition experiment_changes ::
  "flt \<Rightarrow> string \<Rightarrow> OneSectorGE \<times> oe_row list \<Rightarrow> (OneSectorGE \<times> oe_row list) outcome" where
  "experiment_changes total_output country st =
     (case st of (s, results_table) \<Rightarrow>
        eval_in (lookup (country_set s) country) st (\<lambda>c.
        eval_in (the_float (experiment_output c)) st (\<lambda>eo.
          (let oc = percent_change_of eo (baseline_output c);
               s1 = set_country country
                      (\<lambda>c. c\<lparr>experiment_output_share := Some (fdiv eo total_output),
                              Country.output_change := Some oc\<rparr>) s
           in eval_in (the_float (experiment_expenditure c)) (s1, results_table) (\<lambda>ee.
                (let ec = percent_change_of ee (baseline_expenditure c)
                 in (None,
                     (set_country country (\<lambda>c. c\<lparr>expenditure_change := Some ec\<rparr>) s1,
                      results_table @
                        [\<lparr>oe_country = country,
                          oe_baseline_output = baseline_output c,
                          oe_experiment_output = eo,
                          oe_output_percent_change = oc,
                          oe_baseline_expenditure = baseline_expenditure c,
                          oe_experiment_expenditure = ee,
                          oe_expenditure_percent_change = ec\<rparr>]))))))))"

text \<open>
  \<open>_construct_experiment_output_expend\<close>. With no country at all the two totals are
  the Python integer 0 to which nothing was added, and the division of the economy-wide
  change is a division of integers by zero, which raises; in every other case the
  operands are floats.
\<close>

definition construct_experiment_output_expend :: "OneSectorGE \<Rightarrow> OneSectorGE outcome" where
  "construct_experiment_output_expend s =
     (case for_each experiment_levels (keys (country_set s)) (s, Fin 0) of
        (Some e, (s1, total_output)) \<Rightarrow> (Some e, s1)
      | (None, (s1, total_output)) \<Rightarrow>
          (case for_each (experiment_changes total_output) (keys (country_set s1)) (s1, []) of
             (Some e, (s2, results_table)) \<Rightarrow> (Some e, s2)
           | (None, (s2, results_table)) \<Rightarrow>
               (let s3 = s2\<lparr>economy' := (economy' s2)\<lparr>experiment_total_output :=
                                                        Some total_output\<rparr>\<rparr>
                in eval_in (the_float (baseline_total_output (economy' s3))) s3 (\<lambda>bt.
                     if keys (country_set s3) = [] \<and> bt = Fin 0
                     then (Some ZeroDivisionError, s3)
                     else (None,
                           s3\<lparr>economy' := (economy' s3)\<lparr>Economy.output_change :=
                                                          Some (percent_change_of total_output bt)\<rparr>,
                              outputs_expenditures := Some results_table\<rparr>)))))"

subsection \<open>Results: bilateral and aggregate trade\<close>

text \<open>Reading an attribute that is set only by a later step.\<close>

definition attribute :: "'a option \<Rightarrow> exn + 'a" where
  "attribute v = (case v of None \<Rightarrow> Inl AttributeError | Some a \<Rightarrow> Inr a)"

record trade_row =
  tr_exporter :: string
  tr_importer :: string
  gravity :: flt
  bsln_gravity :: flt

text \<open>Passing \<open>None\<close> to pandas where a data frame is expected.\<close>

definition frame :: "'a option \<Rightarrow> exn + 'a" where
  "frame v = (case v of None \<Rightarrow> Inl TypeError | Some a \<Rightarrow> Inr a)"

text \<open>The body of the loop over the rows of the trade data.\<close>

definition gravity_of_row :: "country_dict \<Rightarrow> obs \<Rightarrow> exn + trade_row" where
  "gravity_of_row cs r =
     then_do (lookup cs (obs_importer r)) (\<lambda>im.
     then_do (lookup cs (obs_exporter r)) (\<lambda>ex.
     then_do (attribute (experiment_output_share ex)) (\<lambda>output_share.
     then_do (the_float (experiment_expenditure im)) (\<lambda>expend.
     then_do (the_float (experiment_imr im)) (\<lambda>imr.
     then_do (the_float (experiment_omr ex)) (\<lambda>omr.
     then_do (the_float (baseline_output_share ex)) (\<lambda>bsln_output_share.
     then_do (the_float (baseline_imr im)) (\<lambda>bsln_imr.
     then_do (the_float (baseline_omr ex)) (\<lambda>bsln_omr.
       Inr \<lparr>tr_exporter = obs_exporter r, tr_importer = obs_importer r,
            gravity = fdiv (fmul expend output_share) (fmul imr omr),
            bsln_gravity = fdiv (fmul (baseline_expenditure im) bsln_output_share)
                             (fmul bsln_imr bsln_omr)\<rparr>)))))))))"

text \<open>
  \<open>merge(costs, how='left', on=[importer, exporter])\<close>: the trade costs of the rows of
  the cost table with the pair of the left row, in the order of the table, or nan when
  there is none.
\<close>

definition matching_costs :: "cost_row list \<Rightarrow> string \<Rightarrow> string \<Rightarrow> flt list" where
  "matching_costs costs imp ex =
     (let ms = filter (\<lambda>c. tc_importer c = imp \<and> tc_exporter c = ex) costs
      in if ms = [] then [NaN] else map (\<lambda>c. Fin (trade_cost c)) ms)"

text \<open>The rows of the trade table after the two merges, with the modelled trade.\<close>

definition bilateral_of_row ::
  "cost_row list \<Rightarrow> cost_row list \<Rightarrow> trade_row \<Rightarrow> bilateral_row list" where
  "bilateral_of_row baseline_costs experiment_costs t =
     concat (map (\<lambda>b. map (\<lambda>e.
         (let bm = fmul b (bsln_gravity t);
              et = fmul e (gravity t)
          in \<lparr>bt_exporter = tr_exporter t, bt_importer = tr_importer t,
              baseline_modeled_trade = bm, experiment_trade = et,
              percent_change = percent_change_of et bm\<rparr>))
         (matching_costs experiment_costs (tr_importer t) (tr_exporter t)))
       (matching_costs baseline_costs (tr_importer t) (tr_exporter t)))"

text \<open>\<open>groupby(key).agg('sum')\<close>: the groups in sorted order, nan skipped in the sums,
  and the percent change of the two sums.\<close>

definition group_sums ::
  "(bilateral_row \<Rightarrow> string) \<Rightarrow> bilateral_row list \<Rightarrow> (string \<times> flt \<times> flt \<times> flt) list" where
  "group_sums key rows =
     map (\<lambda>k.
         (let b = nansum (map baseline_modeled_trade (filter (\<lambda>r. key r = k) rows));
              e = nansum (map experiment_trade (filter (\<lambda>r. key r = k) rows))
          in (k, b, e, percent_change_of e b)))
       (sort (remdups (map key rows)))"

text \<open>A cell of the concatenated table: nan for a country that a group table lacks.\<close>

definition cell_of ::
  "(string \<times> flt \<times> flt \<times> flt) list \<Rightarrow> string \<Rightarrow> (flt \<times> flt \<times> flt \<Rightarrow> flt) \<Rightarrow> flt" where
  "cell_of table country col =
     (case map_of table country of None \<Rightarrow> NaN | Some v \<Rightarrow> col v)"

definition first_col :: "flt \<times> flt \<times> flt \<Rightarrow> flt" where
  "first_col v = fst v"

definition second_col :: "flt \<times> flt \<times> flt \<Rightarrow> flt" where
  "second_col v = fst (snd v)"

definition third_col :: "flt \<times> flt \<times> flt \<Rightarrow> flt" where
  "third_col v = snd (snd v)"

text \<open>
  \<open>pd.concat([agg_exports, foreign_exports, agg_imports, foreign_imports], axis=1)\<close>:
  one row for every country of one of the four tables. The rows are listed by the
  first appearance of their country in the four tables; the order in which pandas
  lists them depends on its version when the four tables do not have the same
  countries.
\<close>

definition concat_aggregates ::
  "(string \<times> flt \<times> flt \<times> flt) list \<Rightarrow> (string \<times> flt \<times> flt \<times> flt) list \<Rightarrow>
   (string \<times> flt \<times> flt \<times> flt) list \<Rightarrow> (string \<times> flt \<times> flt \<times> flt) list \<Rightarrow> agg_row list" where
  "concat_aggregates agg_exports foreign_exports agg_imports foreign_imports =
     map (\<lambda>c.
         \<lparr>agg_country = c,
          agg_baseline_exports = cell_of agg_exports c first_col,
          agg_experiment_exports = cell_of agg_exports c second_col,
          agg_export_percent_change = cell_of agg_exports c third_col,
          agg_baseline_foreign_exports = cell_of foreign_exports c first_col,
          agg_experiment_foreign_exports = cell_of foreign_exports c second_col,
          agg_foreign_export_percent_change = cell_of foreign_exports c third_col,
          agg_baseline_imports = cell_of agg_imports c first_col,
          agg_experiment_imports = cell_of agg_imports c second_col,
          agg_import_percent_change = cell_of agg_imports c third_col,
          agg_baseline_foreign_imports = cell_of foreign_imports c first_col,
          agg_experiment_foreign_imports = cell_of foreign_imports c second_col,
          agg_foreign_import_percent_change = cell_of foreign_imports c third_col\<rparr>)
       (rev (remdups (rev (keys agg_exports @ keys foreign_exports @
                           keys agg_imports @ keys foreign_imports))))"

text \<open>The body of the loop \<open>for row in agg_trade.index\<close>. Every row stores into the
  country of its own.\<close>

definition store_aggregates :: "agg_row \<Rightarrow> OneSectorGE \<Rightarrow> OneSectorGE outcome" where
  "store_aggregates r s =
     eval_in (lookup (country_set s) (agg_country r)) s (\<lambda>country_obj.
       (None,
        set_country (agg_country r)
          (\<lambda>c. c\<lparr>baseline_imports := Some (agg_baseline_imports r),
                  baseline_exports := Some (agg_baseline_exports r),
                  baseline_foreign_imports := Some (agg_baseline_foreign_imports r),
                  baseline_foreign_exports := Some (agg_baseline_foreign_exports r),
                  experiment_imports := Some (agg_experiment_imports r),
                  experiment_exports := Some (agg_experiment_exports r),
                  imports_change := Some (agg_import_percent_change r),
                  exports_change := Some (agg_export_percent_change r),
                  experiment_foreign_imports := Some (agg_experiment_foreign_imports r),
                  experiment_foreign_exports := Some (agg_experiment_foreign_exports r),
                  foreign_imports_change := Some (agg_foreign_import_percent_change r),
                  foreign_exports_change := Some (agg_foreign_export_percent_change r)\<rparr>) s))"

definition is_foreign :: "bilateral_row \<Rightarrow> bool" where
  "is_foreign r = (bt_importer r \<noteq> bt_exporter r)"

text \<open>\<open>_construct_experiment_trade\<close>. The table of aggregate results is stored as the
  multiset of its rows.\<close>

definition construct_experiment_trade :: "OneSectorGE \<Rightarrow> OneSectorGE outcome" where
  "construct_experiment_trade s =
     (let trade_data = filter (\<lambda>r. obs_year r = year' s) (baseline_data s)
      in eval_in (collect (map (gravity_of_row (country_set s)) trade_data)) s (\<lambda>with_gravity.
         eval_in (frame (experiment_trade_costs s)) s (\<lambda>experiment_costs.
           (let bilateral = concat (map (bilateral_of_row (baseline_trade_costs s)
                                           experiment_costs) with_gravity);
                s1 = s\<lparr>bilateral_trade_results := Some bilateral\<rparr>;
                agg_imports = group_sums bt_importer bilateral;
                foreign_imports = group_sums bt_importer (filter is_foreign bilateral);
                agg_exports = group_sums bt_exporter bilateral;
                foreign_exports = group_sums bt_exporter (filter is_foreign bilateral);
                agg_trade = concat_aggregates agg_exports foreign_exports
                              agg_imports foreign_imports
            in next_do (for_each store_aggregates agg_trade s1) (\<lambda>s2.
                 (None, s2\<lparr>aggregate_trade_results := Some (mset agg_trade)\<rparr>))))))"

subsection \<open>Result tables, simulation and the result queries\<close>

text \<open>\<open>Country.get_results\<close> and \<open>Country.get_mr_results\<close>.\<close>

definition get_results :: "Country \<Rightarrow> exn + result_row" where
  "get_results c =
     then_do (attribute (exports_change c)) (\<lambda>ex.
     then_do (attribute (imports_change c)) (\<lambda>im.
       Inr \<lparr>res_country = country_identifier c,
            res_factory_price_change = factory_price_change c,
            res_output_change = Country.output_change c,
            res_expenditure_change = expenditure_change c,
            res_export_change = ex,
            res_import_change = im,
            res_foreign_export_change = foreign_exports_change c,
            res_foreign_import_change = foreign_imports_change c,
            res_terms_of_trade_change = terms_of_trade_change c\<rparr>))"

definition get_mr_results :: "Country \<Rightarrow> mr_row" where
  "get_mr_results c =
     \<lparr>mr_country = country_identifier c,
      mr_baseline_imr = baseline_imr c,
      mr_conditional_expiriment_imr = conditional_imr c,
      mr_experiment_imr = experiment_imr c,
      mr_baseline_omr = baseline_omr c,
      mr_conditional_expiriment_omr = conditional_omr c,
      mr_experiment_omr = experiment_omr c\<rparr>"

text \<open>\<open>pd.concat(rows, axis=0)\<close> of a list of one-row tables.\<close>

definition concat_rows :: "'a list \<Rightarrow> exn + 'a list" where
  "concat_rows rows =
     (if rows = [] then Inl (ValueError ''No objects to concatenate'') else Inr rows)"

text \<open>\<open>_compile_results\<close>.\<close>

definition compile_results :: "OneSectorGE \<Rightarrow> OneSectorGE outcome" where
  "compile_results s =
     eval_in (collect (map (\<lambda>(k, c). get_results c) (country_set s))) s (\<lambda>results.
     eval_in (concat_rows results) s (\<lambda>country_results.
       (let s1 = s\<lparr>country_results := Some country_results\<rparr>
        in eval_in (concat_rows (map (\<lambda>(k, c). get_mr_results c) (country_set s1))) s1
             (\<lambda>country_mr_results.
                (None, s1\<lparr>country_mr_terms := Some country_mr_results\<rparr>)))))"

definition baseline_first_simulate :: string where
  "baseline_first_simulate =
     ''Baseline must be built first (i.e. OneSectorGE.build_baseline() method''"

definition experiment_first :: string where
  "experiment_first =
     ''Expiriment must be defined first (i.e. OneSectorGE.define_expiriment() method''"

text \<open>The comprehension that calls \<open>construct_terms_of_trade\<close> for every country.\<close>

definition terms_of_trade_step :: "string \<Rightarrow> OneSectorGE \<Rightarrow> OneSectorGE outcome" where
  "terms_of_trade_step country s =
     eval_in (lookup (country_set s) country) s (\<lambda>c.
       (case construct_terms_of_trade c of
          (ws, r, c') \<Rightarrow>
            (r, (set_country country (\<lambda>_. c') s)\<lparr>warnings := warnings s @ ws\<rparr>)))"

text \<open>\<open>simulate\<close>.\<close>

definition simulate ::
  "root_finder \<Rightarrow> string \<Rightarrow> real \<Rightarrow> int \<Rightarrow> OneSectorGE \<Rightarrow> OneSectorGE outcome" where
  "simulate solver ge_method ge_tolerance ge_max_iter s =
     (if \<not> baseline_built' s then (Some (ValueError baseline_first_simulate), s)
      else if \<not> experiment_defined' s then (Some (ValueError experiment_first), s)
      else
        (let s1 = s\<lparr>ge_method' := Some ge_method, ge_tolerance' := Some ge_tolerance,
                    ge_max_iter' := Some ge_max_iter\<rparr>
         in next_do
              (if approach s1 = Some ''GEPPML''
               then calculate_GEPPML_multilateral_resistance ''conditional'' s1
               else eval_in (attribute (experiment_trade_costs s1)) s1 (\<lambda>costs.
                      calculate_multilateral_resistance solver costs ''conditional'' s1))
              (\<lambda>s2. next_do (calculate_full_ge solver s2)
              (\<lambda>s3. next_do (for_each terms_of_trade_step (keys (country_set s3)) s3)
              (\<lambda>s4. next_do (construct_experiment_output_expend s4)
              (\<lambda>s5. next_do (construct_experiment_trade s5)
              (\<lambda>s6. compile_results s6)))))))"

text \<open>
  \<open>trade_share\<close>. The stored table of bilateral results has the exporter and the
  importer as its index (\<open>set_index\<close>), so the first column selection
  \<open>bilat_trade['importer']\<close> is a KeyError and the rest of the method is not reached;
  on \<open>None\<close> the attribute access \<open>bilat_trade.loc\<close> fails before that.
\<close>

definition trade_share :: "string list \<Rightarrow> string list \<Rightarrow> OneSectorGE \<Rightarrow> exn + unit" where
  "trade_share importers exporters s =
     (case bilateral_trade_results s of
        None \<Rightarrow> Inl AttributeError
      | Some bilat_trade \<Rightarrow> Inl KeyError)"

text \<open>
  What \<open>export_results\<close> returns without a directory: the concatenated country tables
  (those that are not \<open>None\<close>), the bilateral results and the diagnostics.
\<close>

record exported =
  ex_country_results :: "result_row list option"
  ex_factory_gate_prices :: "(string \<times> flt) list option"
  ex_aggregate_trade_results :: "agg_row multiset option"
  ex_outputs_expenditures :: "oe_row list option"
  ex_country_mr_terms :: "mr_row list option"
  ex_bilateral_results :: "bilateral_row list option"
  ex_diagnostics :: "(string \<times> OptimizeResult) list"

text \<open>
  \<open>export_results(directory=None)\<close>. \<open>pd.concat\<close> drops the entries that are \<open>None\<close>
  and raises when none is left; \<open>drop\<close> raises when one of its labels is in no table,
  and its labels are columns of the factory-gate prices, the aggregate trade results
  and the outputs and expenditures.
\<close>

definition all_none :: string where
  "all_none = ''All objects passed were None''"

definition export_results :: "OneSectorGE \<Rightarrow> exn + exported" where
  "export_results s =
     (if country_results s = None \<and> factory_gate_prices s = None
         \<and> aggregate_trade_results s = None \<and> outputs_expenditures s = None
         \<and> country_mr_terms s = None
      then Inl (ValueError all_none)
      else if factory_gate_prices s = None \<or> aggregate_trade_results s = None
              \<or> outputs_expenditures s = None
      then Inl KeyError
      else Inr \<lparr>ex_country_results = country_results s,
                ex_factory_gate_prices = factory_gate_prices s,
                ex_aggregate_trade_results = aggregate_trade_results s,
                ex_outputs_expenditures = outputs_expenditures s,
                ex_country_mr_terms = country_mr_terms s,
                ex_bilateral_results = bilateral_trade_results s,
                ex_diagnostics = solver_diagnostics s\<rparr>)"

subsection \<open>The constructor\<close>

text \<open>
  \<open>OneSectorGE.__init__\<close>. The per-country table (identifier, output, expenditure and
  the two fixed-effect estimates, \<open>None\<close> for no estimate), which the source computes
  from the estimation data and the estimation results with pandas, is an argument; so
  are the cost variables and their coefficients. A constructor that raises leaves no
  object.
\<close>

record country_datum =
  cd_identifier :: string
  cd_output :: flt
  cd_expenditure :: flt
  cd_importer_fe :: "real option"
  cd_exporter_fe :: "real option"

definition no_observations :: string where
  "no_observations = ''There are no observations corresponding to the supplied year''"

text \<open>\<open>float(...)\<close> of the expenditure column restricted to the reference importer:
  a TypeError unless exactly one row is left.\<close>

definition reference_expenditure :: "country_datum list \<Rightarrow> string option \<Rightarrow> exn + flt" where
  "reference_expenditure country_data ref =
     (case filter (\<lambda>r. Some (cd_identifier r) = ref) country_data of
        [r] \<Rightarrow> Inr (cd_expenditure r)
      | _ \<Rightarrow> Inl TypeError)"

text \<open>The loop of \<open>_create_baseline_countries\<close> over the rows of the table.\<close>

definition create_baseline_countries :: "country_datum list \<Rightarrow> string \<Rightarrow> flt \<Rightarrow> country_dict" where
  "create_baseline_countries country_data yr ref_expnd =
     fold (\<lambda>r. store (cd_identifier r)
                  (new_Country (cd_identifier r) yr (cd_output r) (cd_expenditure r)
                     (cd_importer_fe r) (cd_exporter_fe r) ref_expnd))
       country_data []"

definition with_shares :: "Economy \<Rightarrow> string \<times> Country \<Rightarrow> exn + string \<times> Country" where
  "with_shares economy kc =
     (case calculate_baseline_output_expenditure_shares economy (snd kc) of
        (Some e, c) \<Rightarrow> Inl e
      | (None, c) \<Rightarrow> Inr (fst kc, c))"

definition new_OneSectorGE ::
  "(string \<times> real) list option \<Rightarrow> obs list \<Rightarrow> country_datum list \<Rightarrow> string \<Rightarrow> real
     \<Rightarrow> string option \<Rightarrow> string option \<Rightarrow> bool \<Rightarrow> string list \<Rightarrow> (string \<times> real) list
     \<Rightarrow> exn + OneSectorGE" where
  "new_OneSectorGE results data country_data yr sg ref appr qt cost_vars coeffs =
     (let baseline = filter (\<lambda>r. obs_year r = yr) data
      in if baseline = [] then Inl (ValueError no_observations)
         else
           then_do (reference_expenditure country_data ref) (\<lambda>ref_expnd.
             (let countries = create_baseline_countries country_data yr ref_expnd;
                  economy = initialize_baseline_total_output_expend countries (new_Economy sg)
              in then_do (collect (map (with_shares economy) countries)) (\<lambda>countries'.
                   (case create_trade_costs baseline
                           \<lparr>estimation_results' = results, year' = yr,
                            OneSectorGE.sigma = sg, reference_importer' = ref,
                            omr_rescale' = None, imr_rescale' = None,
                            mr_max_iter' = None, mr_tolerance' = None, mr_method' = None,
                            ge_method' = None, ge_tolerance' = None, ge_max_iter' = None,
                            country_set = countries', economy' = economy,
                            baseline_trade_costs = [], experiment_trade_costs = None,
                            cost_shock = None, experiment_data = None,
                            approach = appr, quiet = qt,
                            bilateral_trade_results = None, aggregate_trade_results = None,
                            solver_diagnostics = [], factory_gate_prices = None,
                            outputs_expenditures = None, country_results = None,
                            country_mr_terms = None,
                            baseline_built' = False, experiment_defined' = False,
                            cost_variables = cost_vars, cost_coeffs = coeffs,
                            baseline_data = baseline, warnings = [], printed = []\<rparr> of
                      (Inl e, s) \<Rightarrow> Inl e
                    | (Inr costs, s) \<Rightarrow> Inr (s\<lparr>baseline_trade_costs := costs\<rparr>))))))"

subsection \<open>Notions used to state the properties\<close>

text \<open>
  A vector of unknowns rescaled component by component: its inward block multiplied by
  the inward factor, the rest by the outward factor.
\<close>

definition rescale_unknowns :: "flt list \<Rightarrow> nat \<Rightarrow> real \<Rightarrow> real \<Rightarrow> flt list" where
  "rescale_unknowns x n imr_r omr_r =
     scaled (slice x 0 (int n - 1)) imr_r @ scaled (slice_from x (int n - 1)) omr_r"

text \<open>A value of a residual function that is a vector of zeros.\<close>

definition zeroes :: "exn + flt list \<Rightarrow> bool" where
  "zeroes r = (case r of Inl e \<Rightarrow> False | Inr out \<Rightarrow> list_all (\<lambda>v. v = Fin 0) out)"

text \<open>
  The residuals of the multilateral-resistance system as the specification describes
  them, for \<open>n\<close> countries in sorted order of which the one at position \<open>ref\<close> is the
  reference importer. The unknowns are the rescaled inward terms of the countries other
  than the reference importer, in sorted order, followed by the rescaled outward terms
  of all countries; the inward term of the reference importer is 1. There is one
  residual \<open>1 - IMR j * (\<Sum>i. cost_out_shr[i, j] * OMR i)\<close> for every importer \<open>j\<close>
  other than the reference importer, and one residual
  \<open>1 - OMR i * (\<Sum>j. cost_exp_shr[i, j] * IMR j)\<close> for every exporter \<open>i\<close>.
\<close>

definition spec_imr :: "nat \<Rightarrow> flt list \<Rightarrow> mr_params \<Rightarrow> nat \<Rightarrow> flt" where
  "spec_imr ref x p j =
     (if j = ref then Fin 1
      else fmul (x ! (if j < ref then j else j - 1)) (Fin (imr_rescale p)))"

definition spec_omr :: "flt list \<Rightarrow> mr_params \<Rightarrow> nat \<Rightarrow> flt" where
  "spec_omr x p i = fmul (x ! (number_of_countries p - 1 + i)) (Fin (omr_rescale p))"

definition spec_mr_residuals :: "nat \<Rightarrow> flt list \<Rightarrow> mr_params \<Rightarrow> flt list" where
  "spec_mr_residuals ref x p =
     (let n = number_of_countries p
      in map (\<lambda>j. fsub (Fin 1)
                    (fmul (spec_imr ref x p j)
                       (fsum (map (\<lambda>i. fmul (cost_out_shr p ! i ! j) (spec_omr x p i))
                                [0 ..< n]))))
           (filter (\<lambda>j. j \<noteq> ref) [0 ..< n]) @
         map (\<lambda>i. fsub (Fin 1)
                    (fmul (spec_omr x p i)
                       (fsum (map (\<lambda>j. fmul (cost_exp_shr p ! i ! j) (spec_imr ref x p j))
                                [0 ..< n]))))
           [0 ..< n])"

text \<open>What the loop at the end of \<open>_calculate_full_ge\<close> stores for the country at
  position \<open>i\<close> of the sorted list.\<close>

definition set_experiment :: "flt list \<Rightarrow> flt list \<Rightarrow> flt list \<Rightarrow> nat \<Rightarrow> Country \<Rightarrow> Country" where
  "set_experiment imrs omrs prices i c =
     c\<lparr>experiment_imr := Some (imrs ! i), experiment_omr := Some (omrs ! i),
       experiment_factory_price := Some (prices ! i),
       factory_price_change := Some (fmul (Fin 100) (fsub (prices ! i) (Fin 1)))\<rparr>"

text \<open>A solver that answers with the given result.\<close>

definition answering :: "OptimizeResult \<Rightarrow> root_finder" where
  "answering r f x0 method tol max_iter = Inr r"

text \<open>The two lifecycle flags of the model object.\<close>

definition flags :: "OneSectorGE \<Rightarrow> bool \<times> bool" where
  "flags s = (baseline_built' s, experiment_defined' s)"

text \<open>The result fields, and the state in which all of them are unset.\<close>

definition results_of ::
  "OneSectorGE \<Rightarrow> bilateral_row list option \<times> agg_row multiset option
     \<times> (string \<times> flt) list option \<times> oe_row list option \<times> result_row list option
     \<times> mr_row list option" where
  "results_of s =
     (bilateral_trade_results s, aggregate_trade_results s, factory_gate_prices s,
      outputs_expenditures s, country_results s, country_mr_terms s)"

definition no_results :: "OneSectorGE \<Rightarrow> bool" where
  "no_results s \<longleftrightarrow> results_of s = (None, None, None, None, None, None)"

text \<open>What neither \<open>build_baseline\<close> nor \<open>define_experiment\<close> changes before it
  completes.\<close>

definition core :: "OneSectorGE \<Rightarrow> (bool \<times> bool) \<times> _" where
  "core s = (flags s, results_of s)"

text \<open>
  The states a model object can be in, with the record of which of \<open>build_baseline\<close>
  and \<open>define_experiment\<close> has completed (returned without raising) so far: the object
  is constructed, and then the three public methods are called in any order and with
  any arguments, each call returning or raising.
\<close>

inductive lifecycle :: "bool \<Rightarrow> bool \<Rightarrow> OneSectorGE \<Rightarrow> bool" where
  constructed:
    "new_OneSectorGE results data country_data yr sg ref appr qt cost_vars coeffs = Inr s
     \<Longrightarrow> lifecycle False False s"
| baseline_completed:
    "lifecycle b e s \<Longrightarrow> build_baseline solver omr_r imr_r m i t s = (None, s')
     \<Longrightarrow> lifecycle True e s'"
| baseline_raised:
    "lifecycle b e s \<Longrightarrow> build_baseline solver omr_r imr_r m i t s = (Some x, s')
     \<Longrightarrow> lifecycle b e s'"
| experiment_completed:
    "lifecycle b e s \<Longrightarrow> define_experiment d s = (None, s') \<Longrightarrow> lifecycle b True s'"
| experiment_raised:
    "lifecycle b e s \<Longrightarrow> define_experiment d s = (Some x, s') \<Longrightarrow> lifecycle b e s'"
| simulated:
    "lifecycle b e s \<Longrightarrow> simulate solver m t i s = (r, s') \<Longrightarrow> lifecycle b e s'"

text \<open>The states of a model object on which \<open>simulate\<close> has not been called.\<close>

inductive not_simulated :: "OneSectorGE \<Rightarrow> bool" where
  fresh:
    "new_OneSectorGE results data country_data yr sg ref appr qt cost_vars coeffs = Inr s
     \<Longrightarrow> not_simulated s"
| after_build_baseline:
    "not_simulated s \<Longrightarrow> build_baseline solver omr_r imr_r m i t s = (r, s')
     \<Longrightarrow> not_simulated s'"
| after_define_experiment:
    "not_simulated s \<Longrightarrow> define_experiment d s = (r, s') \<Longrightarrow> not_simulated s'"

subsection \<open>A two-country example\<close>

text \<open>
  Countries A and B with equal output and expenditure (shares one half each) and the
  trade costs 1/2 for the two flows into A and 1 for the two flows into B. Both
  cost-weighted share matrices are then the matrix below (exporters as rows, importers
  as columns).
\<close>

definition demo_shares :: matrix where
  "demo_shares = [[Fin (1/4), Fin (1/2)], [Fin (1/4), Fin (1/2)]]"

definition demo_mr_params :: mr_params where
  "demo_mr_params =
     \<lparr>number_of_countries = 2, omr_rescale = 1, imr_rescale = 1,
      cost_exp_shr = demo_shares, cost_out_shr = demo_shares\<rparr>"

text \<open>The answer of a solver that gave up, with \<open>n\<close> unknowns.\<close>

definition no_progress :: string where
  "no_progress = ''The iteration is not making good progress''"

definition stalled :: "nat \<Rightarrow> OptimizeResult" where
  "stalled n =
     \<lparr>opt_x = replicate n (Fin 3), opt_success = False, opt_message = no_progress,
      opt_fun = replicate n (Fin 1)\<rparr>"

text \<open>
  The same economy as data: one cost variable with the coefficient -1, whose value is
  \<open>ln 2\<close> on the flows into A and 0 on the flows into B; A is the reference importer.
  The solver of the example answers with the vector (2, 1, 1), extended by ones for the
  prices, and only after checking that this vector zeroes the residual function it
  was given: the inward term of A is 2 when that of B is 1. The same
  solution normalised at A has the inward terms (1, 1/2) and the outward terms (2, 2);
  the fixed effects of the example are the ones that encode it (exporter effects
  \<open>ln 2\<close>, importer effect \<open>- ln 2\<close> for B and none for the reference importer A).
\<close>

definition demo_obs :: "string \<Rightarrow> string \<Rightarrow> real \<Rightarrow> obs" where
  "demo_obs imp ex v =
     \<lparr>obs_importer = imp, obs_exporter = ex, obs_year = ''2000'', obs_trade = 1,
      obs_costs = [(''lndist'', v)]\<rparr>"

definition demo_data :: "obs list" where
  "demo_data =
     [demo_obs ''A'' ''A'' (ln 2), demo_obs ''A'' ''B'' (ln 2),
      demo_obs ''B'' ''A'' 0, demo_obs ''B'' ''B'' 0]"

definition demo_countries :: "country_datum list" where
  "demo_countries =
     [\<lparr>cd_identifier = ''A'', cd_output = Fin 1, cd_expenditure = Fin 1,
       cd_importer_fe = None, cd_exporter_fe = Some (ln 2)\<rparr>,
      \<lparr>cd_identifier = ''B'', cd_output = Fin 1, cd_expenditure = Fin 1,
       cd_importer_fe = Some (- ln 2), cd_exporter_fe = Some (ln 2)\<rparr>]"

definition demo_model :: "string option \<Rightarrow> exn + OneSectorGE" where
  "demo_model appr =
     new_OneSectorGE (Some [(''lndist'', -1)]) demo_data demo_countries ''2000'' 5
       (Some ''A'') appr True [''lndist''] [(''lndist'', -1)]"

definition demo_solver :: root_finder where
  "demo_solver f x0 method tol max_iter =
     (let x = [Fin 2, Fin 1, Fin 1] @ replicate (length x0 - 3) (Fin 1)
      in if f x = Inr (replicate (length x) (Fin 0))
         then Inr \<lparr>opt_x = x, opt_success = True, opt_message = solution_converged,
                  opt_fun = replicate (length x) (Fin 0)\<rparr>
         else Inl (ValueError ''not a root''))"

text \<open>Running a method on a constructed object: the object after the call, or the
  exception.\<close>

definition after :: "exn + 's \<Rightarrow> ('s \<Rightarrow> 's outcome) \<Rightarrow> exn + 's" where
  "after m f =
     (case m of
        Inl e \<Rightarrow> Inl e
      | Inr s \<Rightarrow> (case f s of (None, s') \<Rightarrow> Inr s' | (Some e, s') \<Rightarrow> Inl e))"

definition demo_baseline :: "string option \<Rightarrow> exn + OneSectorGE" where
  "demo_baseline appr =
     after (demo_model appr) (build_baseline demo_solver 1 1 ''hybr'' 1400 (1 / 10 ^ 8))"

text \<open>The experiment of the example changes no trade cost.\<close>

definition demo_experiment :: "exn + OneSectorGE" where
  "demo_experiment = after (demo_baseline None) (define_experiment (Some demo_data))"

definition demo_simulated :: "exn + OneSectorGE" where
  "demo_simulated =
     after demo_experiment (simulate demo_solver ''hybr'' (1 / 10 ^ 8) 1000)"

text \<open>A field of every country, by country.\<close>

definition by_country :: "(Country \<Rightarrow> 'a) \<Rightarrow> exn + OneSectorGE \<Rightarrow> exn + (string \<times> 'a) list" where
  "by_country field m =
     (case m of Inl e \<Rightarrow> Inl e | Inr s \<Rightarrow> Inr (map (\<lambda>(k, c). (k, field c)) (country_set s)))"


section \<open>Properties\<close>

subsection \<open>Auxiliary facts\<close>

lemma then_do_Inr [simp]: "then_do (Inr v) f = f v"
  by (simp add: then_do_def)

lemma then_do_Inl [simp]: "then_do (Inl e) f = Inl e"
  by (simp add: then_do_def)

lemma eval_in_Inr [simp]: "eval_in (Inr v) s f = f v"
  by (simp add: eval_in_def)

lemma eval_in_Inl [simp]: "eval_in (Inl e) s f = (Some e, s)"
  by (simp add: eval_in_def)

lemma next_do_None [simp]: "next_do (None, s) f = f s"
  by (simp add: next_do_def)

lemma next_do_Some [simp]: "next_do (Some e, s) f = (Some e, s)"
  by (simp add: next_do_def)

text \<open>Congruence rules that make the simplifier evaluate a sequence of steps in the
  order of the program: a step is evaluated before the steps that follow it are
  looked at.\<close>

lemma eval_in_weak_cong: "m = m' \<Longrightarrow> eval_in m s f = eval_in m' s f"
  by simp

lemma then_do_weak_cong: "m = m' \<Longrightarrow> then_do m f = then_do m' f"
  by simp

lemma next_do_weak_cong: "r = r' \<Longrightarrow> next_do r f = next_do r' f"
  by simp

lemmas eval_congs =
  eval_in_weak_cong then_do_weak_cong next_do_weak_cong let_weak_cong prod.case_cong_weak

lemma the_float_Some [simp]: "the_float (Some v) = Inr v"
  by (simp add: the_float_def)

lemma the_float_None [simp]: "the_float None = Inl TypeError"
  by (simp add: the_float_def)

lemma collect_map_Inr:
  "(\<And>a. a \<in> set xs \<Longrightarrow> f a = Inr (g a)) \<Longrightarrow> collect (map f xs) = Inr (map g xs)"
  by (induction xs) simp_all

lemma nat_int_pred [simp]: "nat (int n - 1) = n - 1"
  by (cases n) simp_all

lemma nat_int_dbl_pred [simp]: "nat (2 * int n - 1) = 2 * n - 1"
  by (cases n) (simp_all add: nat_add_distrib)

lemma slice_index_le: "slice_index n i \<le> n"
  by (auto simp: slice_index_def max_def)

lemma slice_zero_any: "slice xs 0 b = take (slice_index (length xs) b) xs"
  by (simp add: slice_def slice_index_def Let_def)

lemma slice_zero: "0 \<le> b \<Longrightarrow> slice xs 0 b = take (nat b) xs"
  by (simp add: slice_def slice_index_def Let_def min_def)

lemma slice_from_nonneg: "0 \<le> a \<Longrightarrow> slice_from xs a = drop (nat a) xs"
  by (simp add: slice_from_def slice_index_def min_def)

lemma slice_nonneg:
  "0 \<le> a \<Longrightarrow> a \<le> b \<Longrightarrow> slice xs a b = take (nat b - nat a) (drop (nat a) xs)"
  by (simp add: slice_def slice_index_def Let_def min_def)

lemma fmul_one [simp]: "fmul w (Fin 1) = w"
  by (cases w) (simp_all add: inf_of_def)

lemma scaled_one [simp]: "scaled xs 1 = xs"
  by (simp add: scaled_def)

lemma length_scaled [simp]: "length (scaled xs r) = length xs"
  by (simp add: scaled_def)

lemma nth_scaled: "i < length xs \<Longrightarrow> scaled xs r ! i = fmul (xs ! i) (Fin r)"
  by (simp add: scaled_def)

lemma scaled_append: "scaled (xs @ ys) r = scaled xs r @ scaled ys r"
  by (simp add: scaled_def)

lemma map2_nth:
  "length a = n \<Longrightarrow> length b = n \<Longrightarrow> map2 f a b = map (\<lambda>i. f (a ! i) (b ! i)) [0 ..< n]"
  by (auto intro!: nth_equalityI)

lemma imr_equation_value:
  assumes "j < length x_imr" "length m = n" "\<forall>r \<in> set m. length r = n"
    "length x_omr = n" "j < n"
  shows "imr_equation m x_imr x_omr j =
           Inr (fsub (Fin 1)
                  (fmul (x_imr ! j) (fsum (map (\<lambda>i. fmul (m ! i ! j) (x_omr ! i)) [0 ..< n]))))"
proof -
  have c: "column m j = Inr (map (\<lambda>r. r ! j) m)"
    using assms by (auto simp: column_def)
  have s: "map2 fmul (map (\<lambda>r. r ! j) m) x_omr = map (\<lambda>i. fmul (m ! i ! j) (x_omr ! i)) [0 ..< n]"
    using assms by (subst map2_nth [where n = n]) simp_all
  show ?thesis
    using assms by (simp add: imr_equation_def item_def c np_multiply_def s)
qed

lemma omr_equation_value:
  assumes "i < length x_omr" "i < length m" "length (m ! i) = n" "length x_imr = n"
  shows "omr_equation m x_imr x_omr i =
           Inr (fsub (Fin 1)
                  (fmul (x_omr ! i) (fsum (map (\<lambda>j. fmul (m ! i ! j) (x_imr ! j)) [0 ..< n]))))"
  using assms
  by (simp add: omr_equation_def row_def item_def np_multiply_def map2_nth [where n = n])

lemma mr_equations_value:
  assumes n: "0 < n" and li: "length x_imr = n - 1" and lo: "length x_omr = n"
    and out: "length out_shr = n" "\<forall>r \<in> set out_shr. length r = n"
    and exp: "length exp_shr = n" "\<forall>r \<in> set exp_shr. length r = n"
  shows "collect (map (imr_equation out_shr x_imr x_omr) [0 ..< n - 1]) =
           Inr (map (\<lambda>j. fsub (Fin 1)
                       (fmul (x_imr ! j)
                          (fsum (map (\<lambda>i. fmul (out_shr ! i ! j) (x_omr ! i)) [0 ..< n]))))
                  [0 ..< n - 1])"
    and "collect (map (omr_equation exp_shr (x_imr @ [Fin 1]) x_omr) [0 ..< n]) =
           Inr (map (\<lambda>i. fsub (Fin 1)
                       (fmul (x_omr ! i)
                          (fsum (map (\<lambda>j. fmul (exp_shr ! i ! j) ((x_imr @ [Fin 1]) ! j))
                                   [0 ..< n]))))
                  [0 ..< n])"
proof -
  show "collect (map (imr_equation out_shr x_imr x_omr) [0 ..< n - 1]) =
           Inr (map (\<lambda>j. fsub (Fin 1)
                       (fmul (x_imr ! j)
                          (fsum (map (\<lambda>i. fmul (out_shr ! i ! j) (x_omr ! i)) [0 ..< n]))))
                  [0 ..< n - 1])"
  proof (rule collect_map_Inr)
    fix j assume "j \<in> set [0 ..< n - 1]"
    then have "j < n - 1" by simp
    then show "imr_equation out_shr x_imr x_omr j =
                 Inr (fsub (Fin 1)
                        (fmul (x_imr ! j)
                           (fsum (map (\<lambda>i. fmul (out_shr ! i ! j) (x_omr ! i)) [0 ..< n]))))"
      using li lo out by (intro imr_equation_value) auto
  qed
  show "collect (map (omr_equation exp_shr (x_imr @ [Fin 1]) x_omr) [0 ..< n]) =
           Inr (map (\<lambda>i. fsub (Fin 1)
                       (fmul (x_omr ! i)
                          (fsum (map (\<lambda>j. fmul (exp_shr ! i ! j) ((x_imr @ [Fin 1]) ! j))
                                   [0 ..< n]))))
                  [0 ..< n])"
  proof (rule collect_map_Inr)
    fix i assume "i \<in> set [0 ..< n]"
    then have i: "i < n" by simp
    have "length (x_imr @ [Fin 1]) = n" using li n by simp
    then show "omr_equation exp_shr (x_imr @ [Fin 1]) x_omr i =
                 Inr (fsub (Fin 1)
                        (fmul (x_omr ! i)
                           (fsum (map (\<lambda>j. fmul (exp_shr ! i ! j) ((x_imr @ [Fin 1]) ! j))
                                    [0 ..< n]))))"
      using i lo exp by (intro omr_equation_value) auto
  qed
qed

subsection \<open>The residuals of the multilateral-resistance system\<close>

text \<open>
  For \<open>n\<close> countries in sorted order, square share matrices and a vector of \<open>2n - 1\<close>
  unknowns, \<open>_multilateral_resistances\<close> returns the residuals that the specification
  describes for a reference importer at the last position of the sorted country list:
  it reads the first \<open>n - 1\<close> unknowns as the inward terms of the first \<open>n - 1\<close>
  countries and takes 1 for the last one. The initial guess has \<open>2n - 1\<close> entries, all
  equal to one.
\<close>

lemma filter_not_last: "0 < n \<Longrightarrow> filter (\<lambda>j. j \<noteq> n - 1) [0 ..< n] = [0 ..< n - 1]"
proof -
  assume "0 < n"
  then have "[0 ..< n] = [0 ..< n - 1] @ [n - 1]"
    by (cases n) simp_all
  moreover have "filter (\<lambda>j. j \<noteq> n - 1) [0 ..< n - 1] = [0 ..< n - 1]"
    by (rule filter_True) simp
  ultimately show ?thesis by simp
qed

lemma mr_residuals_last_position:
  fixes x :: "flt list" and p :: mr_params
  defines "n \<equiv> number_of_countries p"
  assumes n: "0 < n" and x: "length x = 2 * n - 1"
    and out: "length (cost_out_shr p) = n" "\<forall>r \<in> set (cost_out_shr p). length r = n"
    and exp: "length (cost_exp_shr p) = n" "\<forall>r \<in> set (cost_exp_shr p). length r = n"
  shows "multilateral_resistances x p = Inr (spec_mr_residuals (n - 1) x p)"
    and "initial_values n = replicate (2 * n - 1) (Fin 1)"
proof -
  let ?xi = "scaled (slice x 0 (int n - 1)) (imr_rescale p)"
  let ?xo = "scaled (slice_from x (int n - 1)) (omr_rescale p)"
  have li: "length ?xi = n - 1" using n x by (simp add: slice_zero)
  have lo: "length ?xo = n" using n x by (simp add: slice_from_nonneg)
  have xi: "\<And>j. j < n - 1 \<Longrightarrow> ?xi ! j = spec_imr (n - 1) x p j"
    using n x by (simp add: slice_zero spec_imr_def nth_scaled)
  have xo: "\<And>i. i < n \<Longrightarrow> ?xo ! i = spec_omr x p i"
    using n x
    by (simp add: slice_from_nonneg spec_omr_def nth_scaled n_def [symmetric] nat_diff_distrib)
  have xi1: "\<And>j. j < n \<Longrightarrow> (?xi @ [Fin 1]) ! j = spec_imr (n - 1) x p j"
  proof -
    fix j assume j: "j < n"
    show "(?xi @ [Fin 1]) ! j = spec_imr (n - 1) x p j"
    proof (cases "j < n - 1")
      case True
      then show ?thesis using li xi [OF True] by (simp add: nth_append del: length_scaled)
    next
      case False
      then have "j = n - 1" using j by simp
      then show ?thesis using li by (simp add: nth_append spec_imr_def del: length_scaled)
    qed
  qed
  have so: "\<And>j. map (\<lambda>i. fmul (cost_out_shr p ! i ! j) (?xo ! i)) [0 ..< n] =
                 map (\<lambda>i. fmul (cost_out_shr p ! i ! j) (spec_omr x p i)) [0 ..< n]"
    by (rule map_cong [OF refl]) (simp add: xo)
  have si: "\<And>i. map (\<lambda>j. fmul (cost_exp_shr p ! i ! j) ((?xi @ [Fin 1]) ! j)) [0 ..< n] =
                 map (\<lambda>j. fmul (cost_exp_shr p ! i ! j) (spec_imr (n - 1) x p j)) [0 ..< n]"
    by (rule map_cong [OF refl]) (simp add: xi1)
  have a: "collect (map (imr_equation (cost_out_shr p) ?xi ?xo) [0 ..< n - 1]) =
             Inr (map (\<lambda>j. fsub (Fin 1)
                         (fmul (spec_imr (n - 1) x p j)
                            (fsum (map (\<lambda>i. fmul (cost_out_shr p ! i ! j) (spec_omr x p i))
                                     [0 ..< n]))))
                    [0 ..< n - 1])"
    unfolding mr_equations_value(1) [OF n li lo out exp] so
    by (simp add: xi)
  have b: "collect (map (omr_equation (cost_exp_shr p) (?xi @ [Fin 1]) ?xo) [0 ..< n]) =
             Inr (map (\<lambda>i. fsub (Fin 1)
                         (fmul (spec_omr x p i)
                            (fsum (map (\<lambda>j. fmul (cost_exp_shr p ! i ! j) (spec_imr (n - 1) x p j))
                                     [0 ..< n]))))
                    [0 ..< n])"
    unfolding mr_equations_value(2) [OF n li lo out exp] si
    by (simp add: xo)
  show "multilateral_resistances x p = Inr (spec_mr_residuals (n - 1) x p)"
    unfolding multilateral_resistances_def spec_mr_residuals_def Let_def n_def [symmetric]
      filter_not_last [OF n]
    by (simp only: a b then_do_Inr)
  show "initial_values n = replicate (2 * n - 1) (Fin 1)"
    by (simp add: initial_values_def)
qed

subsection \<open>Rescaling\<close>

lemma rescale_slices:
  shows "slice (rescale_unknowns x n a b) 0 (int n - 1) = scaled (slice x 0 (int n - 1)) a"
    and "slice_from (rescale_unknowns x n a b) (int n - 1) =
           scaled (slice_from x (int n - 1)) b"
proof -
  let ?h = "slice_index (length x) (int n - 1)"
  have l: "length (rescale_unknowns x n a b) = length x"
    using slice_index_le [of "length x" "int n - 1"]
    by (simp add: rescale_unknowns_def slice_zero_any slice_from_def)
  have h: "?h \<le> length x" by (rule slice_index_le)
  show "slice (rescale_unknowns x n a b) 0 (int n - 1) = scaled (slice x 0 (int n - 1)) a"
    using h unfolding slice_zero_any l
    by (simp add: rescale_unknowns_def slice_zero_any slice_from_def)
  show "slice_from (rescale_unknowns x n a b) (int n - 1) =
          scaled (slice_from x (int n - 1)) b"
    using h unfolding slice_from_def l
    by (simp add: rescale_unknowns_def slice_zero_any slice_from_def)
qed

text \<open>
  Claim C5. Whatever the two rescale factors are, \<open>_multilateral_resistances\<close> takes
  the same value at \<open>x\<close> under the factors as at the componentwise rescaled vector
  under the factors (1, 1); so \<open>x\<close> zeroes the residuals in the first setting exactly
  when the rescaled vector zeroes them in the second, and the inward and outward terms
  unpacked from the solution (the unknowns multiplied back by the factors) are the
  same in both.
\<close>

theorem rescale_invariance:
  fixes x :: "flt list" and p :: mr_params
  defines "n \<equiv> number_of_countries p"
  defines "x' \<equiv> rescale_unknowns x n (imr_rescale p) (omr_rescale p)"
  defines "p' \<equiv> p\<lparr>omr_rescale := 1, imr_rescale := 1\<rparr>"
  shows "multilateral_resistances x p = multilateral_resistances x' p'
       \<and> (zeroes (multilateral_resistances x p) \<longleftrightarrow> zeroes (multilateral_resistances x' p'))
       \<and> unpack_imrs x n (imr_rescale p) = unpack_imrs x' n 1
       \<and> unpack_omrs x n (omr_rescale p) = unpack_omrs x' n 1"
proof -
  have np: "number_of_countries p' = n" "cost_out_shr p' = cost_out_shr p"
    "cost_exp_shr p' = cost_exp_shr p" "imr_rescale p' = 1" "omr_rescale p' = 1"
    by (simp_all add: p'_def n_def)
  have eq: "multilateral_resistances x p = multilateral_resistances x' p'"
    unfolding multilateral_resistances_def Let_def np n_def [symmetric]
    by (simp add: x'_def rescale_slices)
  show ?thesis
    by (simp add: eq unpack_imrs_def unpack_omrs_def x'_def rescale_slices)
qed

subsection \<open>What the methods leave unchanged\<close>

lemma for_each_frame:
  "(\<And>a s. g s = c \<Longrightarrow> g (snd (body a s)) = c) \<Longrightarrow> g s = c \<Longrightarrow> g (snd (for_each body xs s)) = c"
proof (induction xs arbitrary: s)
  case Nil
  then show ?case by simp
next
  case (Cons a xs)
  show ?case
  proof (cases "body a s")
    case (Pair r s')
    have "g s' = c" using Cons.prems(1) [OF Cons.prems(2), of a] Pair by simp
    then show ?thesis
      using Pair Cons.IH [OF Cons.prems(1), of s'] by (cases r) auto
  qed
qed

lemma eval_in_core:
  "(\<And>v. core (snd (f v)) = core s) \<Longrightarrow> core (snd (eval_in m s f)) = core s"
  by (cases m) simp_all

lemma eval_in_flags:
  "(\<And>v. flags (snd (f v)) = flags s) \<Longrightarrow> flags (snd (eval_in m s f)) = flags s"
  by (cases m) simp_all

lemma core_simps [simp]:
  "core (warn m s) = core s"
  "core (say m s) = core s"
  "core (set_country k f s) = core s"
  "core (note_solution key r s) = core s"
  by (simp_all add: core_def flags_def results_of_def warn_def say_def set_country_def
        note_solution_def Let_def)

lemma flags_simps [simp]:
  "flags (warn m s) = flags s"
  "flags (say m s) = flags s"
  "flags (set_country k f s) = flags s"
  "flags (note_solution key r s) = flags s"
  by (simp_all add: flags_def warn_def say_def set_country_def note_solution_def Let_def)

lemma core_create_trade_costs [simp]: "core (snd (create_trade_costs d s)) = core s"
  by (simp add: create_trade_costs_def split: sum.splits)

lemma core_create_params [simp]:
  "core (snd (create_cost_output_expend_params tc s)) = core s"
  by (simp add: create_cost_output_expend_params_def Let_def split: sum.splits)

lemma core_pack_up [simp]: "core (snd (pack_up_mrs cl sol a b v s)) = core s"
  by (simp add: pack_up_mrs_def Let_def core_def flags_def results_of_def)

lemma core_solve_mrs [simp]: "core (snd (solve_mrs solver p cl v s)) = core s"
  unfolding solve_mrs_def Let_def
  by (rule eval_in_core [where s = "say _ s", simplified]) simp

lemma core_calculate_mr [simp]:
  "core (snd (calculate_multilateral_resistance solver tc v s)) = core s"
proof (cases "create_cost_output_expend_params tc s")
  case (Pair r s1)
  then have f: "core s = core s1"
    using core_create_params [of tc s] by simp
  show ?thesis
  proof (cases r)
    case (Inl e)
    then show ?thesis using Pair f by (simp add: calculate_multilateral_resistance_def)
  next
    case (Inr ms)
    obtain a b where ms: "ms = (a, b)" by (cases ms)
    show ?thesis
      unfolding calculate_multilateral_resistance_def Pair Inr ms f
      apply simp
      apply (rule eval_in_core)+
      apply simp
      done
  qed
qed

lemma core_GEPPML_reference [simp]: "core (snd (GEPPML_reference e k s)) = core s"
  unfolding GEPPML_reference_def
  apply (rule eval_in_core)
  apply (simp add: Let_def split: option.splits)
  done

lemma core_GEPPML_other [simp]: "core (snd (GEPPML_other e k s)) = core s"
  unfolding GEPPML_other_def
  apply (rule eval_in_core)
  apply (simp add: Let_def split: option.splits)
  done

lemma core_GEPPML [simp]:
  "core (snd (calculate_GEPPML_multilateral_resistance v s)) = core s"
proof -
  have b: "\<And>ref. core (snd (eval_in (lookup (country_set s) ref) s (\<lambda>ref_obj.
              for_each (\<lambda>country.
                  if country = ref
                  then GEPPML_reference (baseline_expenditure ref_obj) country
                  else GEPPML_other (baseline_expenditure ref_obj) country)
                (keys (country_set s)) s))) = core s"
    apply (rule eval_in_core)
    apply (rule for_each_frame)
     apply simp_all
    done
  show ?thesis
    unfolding calculate_GEPPML_multilateral_resistance_def Let_def
    by (simp add: b split: option.splits)
qed

lemma core_factory_gate [simp]:
  "core (snd (calculate_baseline_factory_gate_params s)) = core s"
  unfolding calculate_baseline_factory_gate_params_def
  apply (rule for_each_frame)
   apply (rule trans [OF eval_in_core])
    apply (rule eval_in_core)+
    apply simp_all
  done

lemma core_build_baseline:
  "core (snd (build_baseline solver a b m i t s)) =
     (if fst (build_baseline solver a b m i t s) = None then ((True, snd (flags s)), results_of s)
      else core s)"
proof -
  let ?s1 = "s\<lparr>omr_rescale' := Some a, imr_rescale' := Some b, mr_max_iter' := Some i,
                mr_tolerance' := Some t, mr_method' := Some m\<rparr>"
  let ?r = "if approach ?s1 = Some ''GEPPML''
            then (if estimation_results' ?s1 = None
                  then (Some (ValueError GEPPML_needs_estimates), ?s1)
                  else calculate_GEPPML_multilateral_resistance ''baseline'' ?s1)
            else calculate_multilateral_resistance solver (baseline_trade_costs ?s1)
                   ''baseline'' ?s1"
  have c1: "core ?s1 = core s"
    by (simp add: core_def flags_def results_of_def)
  have c2: "core (snd ?r) = core s"
    using c1 by (simp del: OneSectorGE.simps)
  obtain x s2 where r: "?r = (x, s2)" by (cases ?r)
  then have c2': "core s2 = core s" using c2 by simp
  obtain y s3 where g: "calculate_baseline_factory_gate_params s2 = (y, s3)"
    by (cases "calculate_baseline_factory_gate_params s2")
  then have c3: "core s3 = core s"
    using core_factory_gate [of s2] c2' by simp
  have b: "build_baseline solver a b m i t s =
             next_do ?r (\<lambda>s2. next_do (calculate_baseline_factory_gate_params s2)
               (\<lambda>s3. (None, s3\<lparr>baseline_built' := True\<rparr>)))"
    by (simp add: build_baseline_def Let_def)
  show ?thesis
    unfolding b r
    using c2' c3 g
    by (cases x; cases y) (auto simp: core_def flags_def results_of_def)
qed

lemma core_define_experiment:
  "core (snd (define_experiment d s)) =
     (if fst (define_experiment d s) = None then ((fst (flags s), True), results_of s)
      else core s)"
proof (cases "baseline_built' s")
  case False
  then show ?thesis by (simp add: define_experiment_def)
next
  case True
  show ?thesis
  proof (cases d)
    case None
    then show ?thesis
      using True by (simp add: define_experiment_def core_def flags_def results_of_def)
  next
    case (Some dd)
    let ?s1 = "s\<lparr>experiment_data := Some dd\<rparr>"
    obtain r s2 where c: "create_trade_costs dd ?s1 = (r, s2)"
      by (cases "create_trade_costs dd ?s1")
    have "core s2 = core ?s1"
      using core_create_trade_costs [of dd ?s1] c by simp
    then have c2: "core s2 = core s"
      by (simp add: core_def flags_def results_of_def)
    show ?thesis
      using True Some c c2
      by (cases r) (auto simp: define_experiment_def Let_def core_def flags_def results_of_def)
  qed
qed

lemma new_OneSectorGE_fresh:
  assumes "new_OneSectorGE results data country_data yr sg ref appr qt cost_vars coeffs = Inr s"
  shows "core s = ((False, False), (None, None, None, None, None, None))"
proof -
  have *: "\<And>d s0 r s1. create_trade_costs d s0 = (r, s1) \<Longrightarrow> core s1 = core s0"
    using core_create_trade_costs by (metis snd_conv)
  show ?thesis
    using assms
    apply (simp add: new_OneSectorGE_def Let_def then_do_def split: if_splits sum.splits prod.splits)
    apply (drule *)
    apply (auto simp: core_def flags_def results_of_def)
    done
qed

lemma eval_in_flags_c:
  "flags s = c \<Longrightarrow> (\<And>v. flags (snd (f v)) = c) \<Longrightarrow> flags (snd (eval_in m s f)) = c"
  by (cases m) simp_all

lemma flags_store_experiment [simp]:
  "flags (snd (store_experiment imrs omrs prices ic s)) = flags s"
  unfolding store_experiment_def
  apply (cases ic)
  apply (simp add: Let_def)
  apply (rule eval_in_flags)
  apply (rule eval_in_flags [where s = "set_country _ _ s", simplified])
  apply (rule eval_in_flags [where s = "set_country _ _ (set_country _ _ s)", simplified])
  apply simp
  done

lemma flags_unpack_full_ge [simp]:
  "flags (snd (unpack_full_ge cl sol a b s)) = flags s"
  unfolding unpack_full_ge_def Let_def
  apply (simp split: if_splits)
  apply (intro impI)
  apply (rule for_each_frame)
   apply simp
  apply (simp add: flags_def)
  done

lemma flags_solve_full_ge [simp]:
  "flags (snd (solve_full_ge solver p init cl s)) = flags s"
  unfolding solve_full_ge_def Let_def
  by (rule eval_in_flags [where s = "say _ s", simplified]) simp

lemma flags_create_params [simp]:
  "flags (snd (create_cost_output_expend_params tc s)) = flags s"
  using core_create_params [of tc s] by (simp add: core_def)

lemma flags_calculate_mr [simp]:
  "flags (snd (calculate_multilateral_resistance solver tc v s)) = flags s"
  using core_calculate_mr [of solver tc v s] by (simp add: core_def)

lemma flags_GEPPML [simp]:
  "flags (snd (calculate_GEPPML_multilateral_resistance v s)) = flags s"
  using core_GEPPML [of v s] by (simp add: core_def)

lemma flags_calculate_full_ge [simp]:
  "flags (snd (calculate_full_ge solver s)) = flags s"
proof (cases "experiment_trade_costs s")
  case None
  then show ?thesis by (simp add: calculate_full_ge_def)
next
  case (Some costs)
  obtain r s1 where c: "create_cost_output_expend_params costs s = (r, s1)"
    by (cases "create_cost_output_expend_params costs s")
  then have f: "flags s = flags s1"
    using flags_create_params [of costs s] by simp
  show ?thesis
  proof (cases r)
    case (Inl e)
    then show ?thesis using Some c f by (simp add: calculate_full_ge_def)
  next
    case (Inr ms)
    obtain a b where ms: "ms = (a, b)" by (cases ms)
    show ?thesis
      apply (simp add: calculate_full_ge_def Some c Inr ms Let_def f)
      apply (rule eval_in_flags)+
      apply simp
      done
  qed
qed

lemma flags_terms_of_trade_step [simp]:
  "flags (snd (terms_of_trade_step k s)) = flags s"
  unfolding terms_of_trade_step_def
  apply (rule eval_in_flags)
  apply (simp add: flags_def set_country_def split: prod.splits)
  done

lemma flags_experiment_levels [simp]:
  "flags (fst (snd (experiment_levels k st))) = flags (fst st)"
  unfolding experiment_levels_def
  apply (cases st)
  apply (simp add: eval_in_def split: sum.splits)
  done

lemma flags_experiment_changes [simp]:
  "flags (fst (snd (experiment_changes tot k st))) = flags (fst st)"
  unfolding experiment_changes_def
  apply (cases st)
  apply (simp add: eval_in_def Let_def split: sum.splits)
  done

lemma flags_output_expend [simp]:
  "flags (snd (construct_experiment_output_expend s)) = flags s"
proof -
  have a: "\<And>xs st. flags (fst (snd (for_each experiment_levels xs st))) = flags (fst st)"
    by (rule for_each_frame [where g = "\<lambda>st. flags (fst st)"]) simp_all
  have b: "\<And>xs st tot. flags (fst (snd (for_each (experiment_changes tot) xs st))) = flags (fst st)"
    by (rule for_each_frame [where g = "\<lambda>st. flags (fst st)"]) simp_all
  obtain r1 s1 tot where l:
    "for_each experiment_levels (keys (country_set s)) (s, Fin 0) = (r1, s1, tot)"
    by (cases "for_each experiment_levels (keys (country_set s)) (s, Fin 0)") auto
  then have f1: "flags s1 = flags s" using a [of "keys (country_set s)" "(s, Fin 0)"] by simp
  obtain r2 s2 tab where c:
    "for_each (experiment_changes tot) (keys (country_set s1)) (s1, []) = (r2, s2, tab)"
    by (cases "for_each (experiment_changes tot) (keys (country_set s1)) (s1, [])") auto
  then have f2: "flags s2 = flags s"
    using b [of tot "keys (country_set s1)" "(s1, [])"] f1 by simp
  show ?thesis
    unfolding construct_experiment_output_expend_def l
    apply (cases r1)
     prefer 2 apply (simp add: f1)
    apply (simp add: c)
    apply (cases r2)
     prefer 2 apply (simp add: f2)
    apply (simp add: Let_def eval_in_def split: sum.splits)
    using f2 apply (simp add: flags_def)
    done
qed

lemma flags_store_aggregates [simp]:
  "flags (snd (store_aggregates r s)) = flags s"
  unfolding store_aggregates_def
  by (rule eval_in_flags) simp

lemma flags_experiment_trade [simp]:
  "flags (snd (construct_experiment_trade s)) = flags s"
proof -
  have agg: "\<And>xs s1. flags s1 = flags s \<Longrightarrow>
      flags (snd (next_do (for_each store_aggregates xs s1)
                    (\<lambda>s2. (None, s2\<lparr>aggregate_trade_results := Some (mset xs)\<rparr>)))) = flags s"
  proof -
    fix xs s1 assume a: "flags s1 = flags s"
    obtain r s2 where f: "for_each store_aggregates xs s1 = (r, s2)"
      by (cases "for_each store_aggregates xs s1")
    have "flags s2 = flags s"
      using for_each_frame [where g = flags and body = store_aggregates and c = "flags s"
          and s = s1 and xs = xs] a f by simp
    then show "flags (snd (next_do (for_each store_aggregates xs s1)
                    (\<lambda>s2. (None, s2\<lparr>aggregate_trade_results := Some (mset xs)\<rparr>)))) = flags s"
      unfolding f by (cases r) (simp_all add: flags_def)
  qed
  show ?thesis
    unfolding construct_experiment_trade_def Let_def
    apply (rule eval_in_flags)+
    apply (rule agg)
    apply (simp add: flags_def)
    done
qed

lemma flags_compile_results [simp]:
  "flags (snd (compile_results s)) = flags s"
  unfolding compile_results_def
  by (simp add: eval_in_def Let_def flags_def split: sum.splits)

lemma next_do_flags:
  "flags (snd r) = c \<Longrightarrow> (\<And>s. flags s = c \<Longrightarrow> flags (snd (f s)) = c)
     \<Longrightarrow> flags (snd (next_do r f)) = c"
  by (cases r) (auto simp: next_do_def split: option.splits)

lemma flags_simulate [simp]: "flags (snd (simulate solver m t i s)) = flags s"
proof (cases "baseline_built' s \<and> experiment_defined' s")
  case False
  then show ?thesis by (auto simp: simulate_def)
next
  case True
  define s1 where "s1 = s\<lparr>ge_method' := Some m, ge_tolerance' := Some t, ge_max_iter' := Some i\<rparr>"
  define r1 where "r1 =
     (if approach s1 = Some ''GEPPML''
      then calculate_GEPPML_multilateral_resistance ''conditional'' s1
      else eval_in (attribute (experiment_trade_costs s1)) s1 (\<lambda>costs.
             calculate_multilateral_resistance solver costs ''conditional'' s1))"
  have f1: "flags s1 = flags s" by (simp add: flags_def s1_def)
  have fr: "flags (snd r1) = flags s1"
    unfolding r1_def by (auto intro: eval_in_flags)
  have tot: "\<And>s3. flags (snd (for_each terms_of_trade_step (keys (country_set s3)) s3)) = flags s3"
    by (rule for_each_frame) simp_all
  have sim: "simulate solver m t i s =
      next_do r1 (\<lambda>s2. next_do (calculate_full_ge solver s2)
        (\<lambda>s3. next_do (for_each terms_of_trade_step (keys (country_set s3)) s3)
        (\<lambda>s4. next_do (construct_experiment_output_expend s4)
        (\<lambda>s5. next_do (construct_experiment_trade s5)
        (\<lambda>s6. compile_results s6)))))"
    using True unfolding simulate_def Let_def r1_def s1_def by simp
  have "flags (snd (simulate solver m t i s)) = flags s1"
    unfolding sim
    apply (rule next_do_flags [OF fr])
    apply (rule next_do_flags, simp)
    apply (rule next_do_flags, simp add: tot)
    apply (rule next_do_flags, simp)
    apply (rule next_do_flags, simp)
    apply simp
    done
  then show ?thesis using f1 by simp
qed

lemma lifecycle_flags: "lifecycle b e s \<Longrightarrow> flags s = (b, e)"
proof (induction rule: lifecycle.induct)
  case (constructed results data country_data yr sg ref appr qt cost_vars coeffs s)
  then show ?case using new_OneSectorGE_fresh [OF constructed] by (simp add: core_def)
next
  case (baseline_completed b e s solver omr_r imr_r m i t s')
  then show ?case
    using core_build_baseline [of solver omr_r imr_r m i t s] by (simp add: core_def)
next
  case (baseline_raised b e s solver omr_r imr_r m i t x s')
  then show ?case
    using core_build_baseline [of solver omr_r imr_r m i t s] by (simp add: core_def)
next
  case (experiment_completed b e s d s')
  then show ?case using core_define_experiment [of d s] by (simp add: core_def)
next
  case (experiment_raised b e s d x s')
  then show ?case using core_define_experiment [of d s] by (simp add: core_def)
next
  case (simulated b e s solver m t i r s')
  then show ?case using flags_simulate [of solver m t i s] by simp
qed

subsection \<open>The lifecycle\<close>

text \<open>
  Claim C6. In whatever state a model object is after its construction and any calls
  of its three public methods: as long as \<open>build_baseline\<close> has not completed,
  \<open>define_experiment\<close> raises the ValueError that asks for the baseline and
  \<open>simulate\<close> raises its ValueError that asks for the baseline; once the baseline is
  built and as long as \<open>define_experiment\<close> has not completed, \<open>simulate\<close> raises
  the ValueError that asks for the experiment. In each case the object is left exactly
  as it was.
\<close>

theorem lifecycle_sequencing:
  assumes "lifecycle b e s"
  shows "(\<not> b \<longrightarrow> define_experiment d s = (Some (ValueError baseline_first), s))
       \<and> (\<not> b \<longrightarrow> simulate solver m t i s = (Some (ValueError baseline_first_simulate), s))
       \<and> (b \<and> \<not> e \<longrightarrow> simulate solver m t i s = (Some (ValueError experiment_first), s))"
  using lifecycle_flags [OF assms]
  by (auto simp: flags_def define_experiment_def simulate_def)

subsection \<open>The result queries\<close>

lemma not_simulated_no_results: "not_simulated s \<Longrightarrow> no_results s"
proof (induction rule: not_simulated.induct)
  case (fresh results data country_data yr sg ref appr qt cost_vars coeffs s)
  then show ?case using new_OneSectorGE_fresh [OF fresh] by (simp add: core_def no_results_def)
next
  case (after_build_baseline s solver omr_r imr_r m i t r s')
  then show ?case
    using core_build_baseline [of solver omr_r imr_r m i t s]
    by (simp add: core_def no_results_def split: if_splits)
next
  case (after_define_experiment s d r s')
  then show ?case
    using core_define_experiment [of d s]
    by (simp add: core_def no_results_def split: if_splits)
qed

lemma lifecycle_no_results: "lifecycle b e s \<Longrightarrow> \<not> (b \<and> e) \<Longrightarrow> no_results s"
proof (induction rule: lifecycle.induct)
  case (constructed results data country_data yr sg ref appr qt cost_vars coeffs s)
  then show ?case
    using new_OneSectorGE_fresh [OF constructed(1)] by (simp add: core_def no_results_def)
next
  case (baseline_completed b e s solver omr_r imr_r m i t s')
  then show ?case
    using core_build_baseline [of solver omr_r imr_r m i t s]
    by (simp add: core_def no_results_def split: if_splits)
next
  case (baseline_raised b e s solver omr_r imr_r m i t x s')
  then show ?case
    using core_build_baseline [of solver omr_r imr_r m i t s]
    by (simp add: core_def no_results_def split: if_splits)
next
  case (experiment_completed b e s d s')
  have "b" using lifecycle_flags [OF experiment_completed(1)] experiment_completed(2)
    by (auto simp: flags_def define_experiment_def split: if_splits)
  then show ?case using experiment_completed by simp
next
  case (experiment_raised b e s d x s')
  then show ?case
    using core_define_experiment [of d s]
    by (simp add: core_def no_results_def split: if_splits)
next
  case (simulated b e s solver m t i r s')
  have "s' = s"
    using lifecycle_flags [OF simulated(1)] simulated(2,4)
    by (auto simp: flags_def simulate_def split: if_splits)
  then show ?case using simulated by simp
qed

text \<open>
  Claim C10, as amended. On a model object in which no result has been stored (every
  result field is still \<open>None\<close>), \<open>trade_share\<close> fails with an AttributeError on the
  unset table of bilateral results, and \<open>export_results\<close> fails with the ValueError
  that \<open>pandas.concat\<close> raises when every table it is given is \<open>None\<close>. Neither is
  one of the sequencing errors of \<open>define_experiment\<close> and \<open>simulate\<close>: no lifecycle
  check is made. No result is stored as long as \<open>simulate\<close> has not been called; nor,
  whatever has been called, as long as \<open>build_baseline\<close> and \<open>define_experiment\<close>
  have not both completed, since \<open>simulate\<close> then stops at its guard.
\<close>

theorem result_queries_without_results:
  "(no_results s \<longrightarrow>
      trade_share importers exporters s = Inl AttributeError
      \<and> export_results s = Inl (ValueError all_none))
   \<and> all_none \<notin> {baseline_first, baseline_first_simulate, experiment_first}
   \<and> (not_simulated s \<longrightarrow> no_results s)
   \<and> (\<forall>b e. lifecycle b e s \<and> \<not> (b \<and> e) \<longrightarrow> no_results s)"
proof -
  have "no_results s \<Longrightarrow>
      trade_share importers exporters s = Inl AttributeError
      \<and> export_results s = Inl (ValueError all_none)"
    by (simp add: no_results_def results_of_def trade_share_def export_results_def)
  moreover have "all_none \<notin> {baseline_first, baseline_first_simulate, experiment_first}"
    by (simp add: all_none_def baseline_first_def baseline_first_simulate_def
          experiment_first_def)
  ultimately show ?thesis
    using not_simulated_no_results [of s] lifecycle_no_results [of _ _ s] by blast
qed

subsection \<open>The two-country example, evaluated\<close>

lemmas demo_defs =
  demo_model_def new_OneSectorGE_def demo_data_def demo_obs_def demo_countries_def
  reference_expenditure_def create_baseline_countries_def store_def keys_def modify_def
  new_Country_def initialize_baseline_total_output_expend_def new_Economy_def
  with_shares_def calculate_baseline_output_expenditure_shares_def fsum_def
  create_trade_costs_def weighted_sum_def lookup_def warn_def trade_costs_not_square_def

lemmas baseline_defs =
  demo_baseline_def after_def build_baseline_def calculate_multilateral_resistance_def
  create_cost_output_expend_params_def share_of_row_def pivot_def has_nan_def
  solve_mrs_def say_def demo_solver_def
  initial_values_def note_solution_def pack_up_mrs_def maybe_repeat_def
  unpack_imrs_def unpack_omrs_def scaled_def
  store_mrs_def set_baseline_mrs_def set_conditional_mrs_def slice_def slice_from_def
  slice_index_def calculate_baseline_factory_gate_params_def set_country_def
  by_country_def solution_converged_def

lemmas residual_defs =
  multilateral_resistances_def full_ge_def imr_equation_def omr_equation_def
  price_equation_def column_def row_def item_def np_multiply_def fsub_def

lemmas simulate_defs =
  demo_simulated_def demo_experiment_def define_experiment_def simulate_def attribute_def
  frame_def
  calculate_full_ge_def gather_def rescaled_def solve_full_ge_def unpack_full_ge_def
  store_experiment_def terms_of_trade_step_def construct_terms_of_trade_def
  construct_experiment_output_expend_def experiment_levels_def experiment_changes_def
  construct_experiment_trade_def gravity_of_row_def matching_costs_def
  percent_change_of_def bilateral_of_row_def nansum_def group_sums_def cell_of_def
  first_col_def second_col_def third_col_def concat_aggregates_def store_aggregates_def
  is_foreign_def compile_results_def get_results_def get_mr_results_def concat_rows_def
  enumerate_eq_zip

lemmas GEPPML_defs =
  calculate_GEPPML_multilateral_resistance_def GEPPML_reference_def GEPPML_other_def
  GEPPML_OMR_def GEPPML_IMR_def importer_fe_for_reference_def

lemma demo_model_ok: "\<exists>s. demo_model appr = Inr s"
  by (simp add: demo_defs exp_minus Let_def power2_eq_square cong: eval_congs)

lemma demo_baseline_ok: "\<exists>s. demo_baseline None = Inr s"
  by (simp add: demo_defs baseline_defs residual_defs exp_minus Let_def power2_eq_square
        cong: eval_congs)

theorem lifecycle_sequencing_witness:
  "\<exists>s0 s1. demo_model None = Inr s0 \<and> demo_baseline None = Inr s1
     \<and> define_experiment (Some demo_data) s0 = (Some (ValueError baseline_first), s0)
     \<and> simulate demo_solver ''hybr'' (1 / 10 ^ 8) 1000 s0 =
           (Some (ValueError baseline_first_simulate), s0)
     \<and> simulate demo_solver ''hybr'' (1 / 10 ^ 8) 1000 s1 =
           (Some (ValueError experiment_first), s1)"
proof -
  obtain s0 where s0: "demo_model None = Inr s0"
    using demo_model_ok by blast
  obtain s1 where s1: "demo_baseline None = Inr s1"
    using demo_baseline_ok by blast
  have l0: "lifecycle False False s0"
    using s0 unfolding demo_model_def by (rule lifecycle.constructed)
  have b: "build_baseline demo_solver 1 1 ''hybr'' 1400 (1 / 10 ^ 8) s0 = (None, s1)"
    using s1 unfolding demo_baseline_def after_def s0
    by (auto split: prod.splits option.splits)
  have l1: "lifecycle True False s1"
    using l0 b by (rule lifecycle.baseline_completed)
  show ?thesis
    using s0 s1 lifecycle_sequencing [OF l0, of "Some demo_data" demo_solver "''hybr''" "1 / 10 ^ 8" 1000]
      lifecycle_sequencing [OF l1, of "Some demo_data" demo_solver "''hybr''" "1 / 10 ^ 8" 1000]
    by simp
qed

theorem result_queries_without_results_witness:
  "\<exists>s. demo_baseline None = Inr s
     \<and> not_simulated s \<and> lifecycle True False s \<and> no_results s
     \<and> trade_share [''A''] [''B''] s = Inl AttributeError
     \<and> export_results s = Inl (ValueError all_none)"
proof -
  obtain s0 where s0: "demo_model None = Inr s0"
    using demo_model_ok by blast
  obtain s1 where s1: "demo_baseline None = Inr s1"
    using demo_baseline_ok by blast
  have n0: "not_simulated s0"
    using s0 unfolding demo_model_def by (rule not_simulated.fresh)
  have l0: "lifecycle False False s0"
    using s0 unfolding demo_model_def by (rule lifecycle.constructed)
  have b: "build_baseline demo_solver 1 1 ''hybr'' 1400 (1 / 10 ^ 8) s0 = (None, s1)"
    using s1 unfolding demo_baseline_def after_def s0
    by (auto split: prod.splits option.splits)
  have n1: "not_simulated s1"
    using n0 b by (rule not_simulated.after_build_baseline)
  have l1: "lifecycle True False s1"
    using l0 b by (rule lifecycle.baseline_completed)
  show ?thesis
    using s1 n1 l1 result_queries_without_results [of s1 "[''A'']" "[''B'']"] by auto
qed

text \<open>
  Claim C10 as stated fails for \<open>export_results\<close>: on the freshly constructed model of
  the example it raises a ValueError, which is neither an AttributeError nor a
  TypeError.
\<close>

theorem export_results_counterexample:
  "\<exists>s. demo_model None = Inr s
     \<and> export_results s = Inl (ValueError all_none)
     \<and> export_results s \<noteq> Inl AttributeError \<and> export_results s \<noteq> Inl TypeError"
proof -
  obtain s0 where s0: "demo_model None = Inr s0"
    using demo_model_ok by blast
  have "not_simulated s0"
    using s0 unfolding demo_model_def by (rule not_simulated.fresh)
  then have "no_results s0" by (rule not_simulated_no_results)
  then have "export_results s0 = Inl (ValueError all_none)"
    by (simp add: no_results_def results_of_def export_results_def)
  then show ?thesis using s0 by simp
qed

subsection \<open>Terms of trade\<close>

text \<open>
  Claim C9, at a failing input: a country as its constructor leaves it (inward terms
  and experiment price unset). \<open>construct_terms_of_trade\<close> issues its warning, once for
  each of the three unset inputs, and then raises a TypeError on the first division;
  nothing is stored.
\<close>

theorem terms_of_trade_unset_inputs:
  "construct_terms_of_trade (new_Country ''A'' ''2000'' (Fin 1) (Fin 1) None None (Fin 1)) =
     ([terms_of_trade_warning, terms_of_trade_warning, terms_of_trade_warning],
      Some TypeError, new_Country ''A'' ''2000'' (Fin 1) (Fin 1) None None (Fin 1))"
  by (simp add: construct_terms_of_trade_def new_Country_def Let_def)

subsection \<open>The normalisation of the reference importer\<close>

text \<open>
  Claim C1, at a failing input: the two-country example, whose reference importer is A,
  run through \<open>build_baseline\<close>, \<open>define_experiment\<close> and \<open>simulate\<close> with a solver
  that returns exact roots of the residual functions it is given. In all three phases
  the inward term stored for the reference importer A is 2; the term equal to 1 is
  that of B, the last country of the sorted list.
\<close>

theorem reference_importer_not_normalised:
  "map_sum id
     (\<lambda>s. (reference_importer' s,
           map (\<lambda>(k, c). (k, baseline_imr c, conditional_imr c, experiment_imr c))
             (country_set s)))
     demo_simulated =
   Inr (Some ''A'',
        [(''A'', Some (Fin 2), Some (Fin 2), Some (Fin 2)),
         (''B'', Some (Fin 1), Some (Fin 1), Some (Fin 1))])"
  by (simp add: demo_defs baseline_defs residual_defs simulate_defs exp_minus Let_def
        power2_eq_square cong: eval_congs)

text \<open>
  Claim C4, at the same failing input. The closed form of the GEPPML approach stores
  the inward term 1 for the reference importer A; the iterative solve stores 2 for A
  and 1 for B. The two baselines are not normalised at the same country.
\<close>

theorem baseline_normalisations_differ:
  "by_country (\<lambda>c. (baseline_imr c, baseline_omr c)) (demo_baseline (Some ''GEPPML'')) =
     Inr [(''A'', Some (Fin 1), Some (Fin 2)), (''B'', Some (Fin 2), Some (Fin 2))]
   \<and> by_country (\<lambda>c. (baseline_imr c, baseline_omr c)) (demo_baseline None) =
     Inr [(''A'', Some (Fin 2), Some (Fin 1)), (''B'', Some (Fin 1), Some (Fin 1))]"
  by (simp add: demo_defs baseline_defs residual_defs GEPPML_defs exp_minus Let_def
        power2_eq_square cong: eval_congs)


end
